theory Spec2Isabelle
  imports Complex_Main
begin

section \<open>Data model: the tables of the store and the state of the exam page\<close>

text \<open>
  The tables are those of the first migration (the \<^verbatim>\<open>CREATE TABLE\<close> statements); only the
  columns that the attempt lifecycle and the grading read or write are kept (titles, texts,
  option lists, image references and creation timestamps are left out).

  \<^item> A \<^verbatim>\<open>UUID\<close> is a \<^typ>\<open>string\<close>.
  \<^item> A \<^verbatim>\<open>DECIMAL(5,2)\<close> value is an \<^typ>\<open>int\<close> counting hundredths (2 points are 200), so
    the client's additions are exact; the column holds the values strictly between
    -100000 and 100000 hundredths.
  \<^item> A \<^verbatim>\<open>JSONB\<close> value is a \<^emph>\<open>json\<close>; the SQL NULL of a nullable JSONB column arrives
    at the client as the JSON null.
  \<^item> A timestamp is an \<^typ>\<open>int\<close>, milliseconds since the epoch.
\<close>

type_synonym uuid = string
type_synonym decimal = int

datatype json =
    JNull
  | JBool bool
  | JNum rat
  | JStr string
  | JArr "json list"
  | JObj "(string \<times> json) list"

datatype user_role = admin | teacher | student
datatype question_type = multiple_choice | true_false | open_answer | matching
datatype exam_status = draft | active | inactive | completed

record profile_row =
  p_user_id :: uuid
  p_role :: user_role

record exam_row =
  e_id :: uuid
  e_creator_id :: uuid
  e_access_code :: string
  e_time_limit :: "int option"
  e_max_attempts :: "int option"
  e_status :: exam_status
  e_show_results_immediately :: bool

record question_row =
  q_id :: uuid
  q_exam_id :: uuid
  q_question_type :: question_type
  q_points :: decimal
  q_order_index :: int
  q_correct_answer :: json

record attempt_row =
  at_id :: uuid
  at_exam_id :: uuid
  at_student_id :: uuid
  at_started_at :: int
  at_completed_at :: "int option"
  at_score :: "decimal option"
  at_total_points :: "decimal option"
  at_attempt_number :: int

record answer_row =
  an_attempt_id :: uuid
  an_question_id :: uuid
  an_answer_value :: json
  an_is_correct :: "bool option"
  an_points_earned :: "decimal option"

record db =
  tbl_profiles :: "profile_row list"
  tbl_exams :: "exam_row list"
  tbl_questions :: "question_row list"
  tbl_exam_attempts :: "attempt_row list"
  tbl_answers :: "answer_row list"

text \<open>
  The exam as the page holds it: the row of \<^verbatim>\<open>exams\<close> with its questions nested
  (\<^verbatim>\<open>select('*, questions(*)')\<close>).
\<close>

record exam_data = exam_row +
  questions :: "question_row list"

text \<open>
  The \<^verbatim>\<open>useState\<close> cells of \<^verbatim>\<open>TakeExam\<close> that the handlers read or write. A missing key of
  \<^verbatim>\<open>answers\<close> reads as \<^verbatim>\<open>undefined\<close>, here \<^const>\<open>None\<close>.
\<close>

record client =
  exam :: "exam_data option"
  answers :: "uuid \<rightharpoonup> json"
  timeLeft :: "int option"
  attemptId :: "uuid option"

section \<open>JavaScript values\<close>

text \<open>
  \<^verbatim>\<open>userAnswer === questionData.correct_answer\<close>: the left side is a cell of the page's
  state (possibly \<^verbatim>\<open>undefined\<close>), the right side a value parsed from the response of the
  query just made. Primitives compare by value; an array or an object is a fresh reference,
  so it is never strictly equal to anything held before.
\<close>

fun strict_eq :: "json option \<Rightarrow> json \<Rightarrow> bool" where
  "strict_eq (Some JNull) JNull = True"
| "strict_eq (Some (JBool a)) (JBool b) = (a = b)"
| "strict_eq (Some (JNum a)) (JNum b) = (a = b)"
| "strict_eq (Some (JStr a)) (JStr b) = (a = b)"
| "strict_eq _ _ = False"

text \<open>\<^verbatim>\<open>!s\<close> for a \<^verbatim>\<open>string | null\<close>: null and the empty string are falsy.\<close>

definition truthy_str :: "string option \<Rightarrow> bool" where
  "truthy_str s = (case s of None \<Rightarrow> False | Some v \<Rightarrow> v \<noteq> [])"

section \<open>Queries of the grading loop\<close>

text \<open>
  Row-level security of \<^verbatim>\<open>questions\<close>: a row is visible to the exam's creator when that
  profile is a teacher or an admin ("Teachers can manage questions for their exams"), and
  to anyone while the exam is active ("Students can view questions during exam").
\<close>

definition can_view_question :: "db \<Rightarrow> uuid \<Rightarrow> question_row \<Rightarrow> bool" where
  "can_view_question d uid q =
     (list_ex (\<lambda>e. list_ex (\<lambda>p. e_creator_id e = p_user_id p \<and> e_id e = q_exam_id q
                                  \<and> p_user_id p = uid \<and> (p_role p = teacher \<or> p_role p = admin))
                         (tbl_profiles d))
              (tbl_exams d)
      \<or> list_ex (\<lambda>e. e_id e = q_exam_id q \<and> e_status e = active) (tbl_exams d))"

text \<open>
  \<^verbatim>\<open>from('questions').select('correct_answer').eq('id', id).single()\<close>: the data is the row
  when exactly one visible row matches, and null otherwise (the error is not read).
\<close>

definition select_correct_answer :: "db \<Rightarrow> uuid \<Rightarrow> uuid \<Rightarrow> json option" where
  "select_correct_answer d uid qid =
     (case filter (\<lambda>q. q_id q = qid \<and> can_view_question d uid q) (tbl_questions d) of
        [q] \<Rightarrow> Some (q_correct_answer q)
      | _ \<Rightarrow> None)"

text \<open>
  Row-level security of \<^verbatim>\<open>answers\<close> for writing ("Students can manage their own
  answers"): the row's attempt must be an attempt of the caller.
\<close>

definition owns_attempt :: "db \<Rightarrow> uuid \<Rightarrow> uuid \<Rightarrow> bool" where
  "owns_attempt d uid aid =
     list_ex (\<lambda>a. at_id a = aid \<and> at_student_id a = uid) (tbl_exam_attempts d)"

text \<open>
  \<^verbatim>\<open>from('answers').update({is_correct, points_earned}).eq('attempt_id', a).eq('question_id', q)\<close>:
  every matching row that the caller may write is rewritten, no row is created. The value
  written to \<^verbatim>\<open>points_earned\<close> is 0, null or the question's own points, which were read from
  a column of the same type, so the write is always in range.
\<close>

definition update_answers ::
  "uuid \<Rightarrow> bool option \<Rightarrow> decimal option \<Rightarrow> uuid \<Rightarrow> uuid \<Rightarrow> db \<Rightarrow> db" where
  "update_answers uid ic pe aid qid d =
     d\<lparr>tbl_answers :=
         map (\<lambda>r. if an_attempt_id r = aid \<and> an_question_id r = qid
                     \<and> owns_attempt d uid (an_attempt_id r)
                  then r\<lparr>an_is_correct := ic, an_points_earned := pe\<rparr> else r)
             (tbl_answers d)\<rparr>"

section \<open>Grading at submission: the loop of handleSubmitExam\<close>

text \<open>
  One iteration of \<^verbatim>\<open>for (const question of exam.questions)\<close>; the state is
  \<^verbatim>\<open>totalScore\<close>, \<^verbatim>\<open>totalPoints\<close> and the store.
\<close>

definition grade_question ::
  "uuid \<Rightarrow> uuid \<Rightarrow> (uuid \<rightharpoonup> json) \<Rightarrow> question_row \<Rightarrow> decimal \<times> decimal \<times> db
     \<Rightarrow> decimal \<times> decimal \<times> db" where
  "grade_question uid aid ans question st =
     (case st of (totalScore, totalPoints0, d) \<Rightarrow>
        let totalPoints = totalPoints0 + q_points question;
            userAnswer = ans (q_id question)
        in
        if q_question_type question = multiple_choice then
          (case select_correct_answer d uid (q_id question) of
             Some correct \<Rightarrow>
               if strict_eq userAnswer correct
               then (totalScore + q_points question, totalPoints,
                     update_answers uid (Some True) (Some (q_points question)) aid (q_id question) d)
               else (totalScore, totalPoints,
                     update_answers uid (Some False) (Some 0) aid (q_id question) d)
           | None \<Rightarrow>
               (totalScore, totalPoints,
                update_answers uid (Some False) (Some 0) aid (q_id question) d))
        else if q_question_type question = true_false then
          (case select_correct_answer d uid (q_id question) of
             Some correct \<Rightarrow>
               if strict_eq userAnswer correct
               then (totalScore + q_points question, totalPoints,
                     update_answers uid (Some True) (Some (q_points question)) aid (q_id question) d)
               else (totalScore, totalPoints,
                     update_answers uid (Some False) (Some 0) aid (q_id question) d)
           | None \<Rightarrow>
               (totalScore, totalPoints,
                update_answers uid (Some False) (Some 0) aid (q_id question) d))
        else
          (totalScore, totalPoints, update_answers uid None None aid (q_id question) d))"

fun grade_loop ::
  "uuid \<Rightarrow> uuid \<Rightarrow> (uuid \<rightharpoonup> json) \<Rightarrow> question_row list \<Rightarrow> decimal \<times> decimal \<times> db
     \<Rightarrow> decimal \<times> decimal \<times> db" where
  "grade_loop uid aid ans [] st = st"
| "grade_loop uid aid ans (question # rest) st =
     grade_loop uid aid ans rest (grade_question uid aid ans question st)"

text \<open>
  The last write of \<^verbatim>\<open>handleSubmitExam\<close>:
  \<^verbatim>\<open>from('exam_attempts').update({completed_at, score, total_points}).eq('id', attemptId)\<close>.
  There is no condition on \<^verbatim>\<open>completed_at\<close>. Row-level security lets a student write
  the attempts whose \<^verbatim>\<open>student_id\<close> is the caller ("Students can manage their own
  attempts"). The store refuses the request (numeric field overflow) when a value does not
  fit \<^verbatim>\<open>DECIMAL(5,2)\<close>; a request that matches no row is not an error.
\<close>

definition fits_decimal :: "int \<Rightarrow> bool" where
  "fits_decimal v = (- 100000 < v \<and> v < 100000)"

definition complete_attempt ::
  "int \<Rightarrow> uuid \<Rightarrow> decimal \<Rightarrow> decimal \<Rightarrow> uuid \<Rightarrow> db \<Rightarrow> db option" where
  "complete_attempt now uid totalScore totalPoints aid d =
     (if fits_decimal totalScore \<and> fits_decimal totalPoints
      then Some (d\<lparr>tbl_exam_attempts :=
                    map (\<lambda>r. if at_id r = aid \<and> at_student_id r = uid
                             then r\<lparr>at_completed_at := Some now,
                                    at_score := Some totalScore,
                                    at_total_points := Some totalPoints\<rparr>
                             else r)
                        (tbl_exam_attempts d)\<rparr>)
      else None)"

datatype submit_outcome = NotSubmitted | Submitted | SubmitFailed

text \<open>
  \<^verbatim>\<open>handleSubmitExam\<close>. \<^const>\<open>NotSubmitted\<close> is the early return
  (\<^verbatim>\<open>if (!attemptId || !exam) return\<close>), \<^const>\<open>SubmitFailed\<close> the \<^verbatim>\<open>catch\<close> branch (the
  answers graded so far stay graded, the attempt is not completed), \<^const>\<open>Submitted\<close> the
  success toast. The errors of the queries inside the loop are never read, so they do not
  stop it. \<^verbatim>\<open>uid\<close> is the identity of the session (\<^verbatim>\<open>auth.uid()\<close>), \<^verbatim>\<open>now\<close> the clock.
\<close>

definition handleSubmitExam :: "int \<Rightarrow> uuid \<Rightarrow> db \<Rightarrow> client \<Rightarrow> submit_outcome \<times> db" where
  "handleSubmitExam now uid d c =
     (if \<not> truthy_str (attemptId c) then (NotSubmitted, d)
      else case exam c of
        None \<Rightarrow> (NotSubmitted, d)
      | Some ex \<Rightarrow>
          (case grade_loop uid (the (attemptId c)) (answers c) (questions ex) (0, 0, d) of
             (totalScore, totalPoints, d1) \<Rightarrow>
               (case complete_attempt now uid totalScore totalPoints (the (attemptId c)) d1 of
                  Some d2 \<Rightarrow> (Submitted, d2)
                | None \<Rightarrow> (SubmitFailed, d1))))"

section \<open>The scoring policy as the specification words it\<close>

text \<open>
  \<^verbatim>\<open>grade(questionType, submittedValue, correctAnswer)\<close> of the specification, with the
  question's points as a further argument: multiple choice and true/false are an equality
  check for full points or zero, an unanswered question (\<^const>\<open>None\<close>) is incorrect, the
  other types are left for manual grading. A key that cannot be read is \<^const>\<open>None\<close>.
\<close>

definition spec_grade ::
  "question_type \<Rightarrow> decimal \<Rightarrow> json option \<Rightarrow> json option \<Rightarrow> bool option \<times> decimal option" where
  "spec_grade questionType pts submittedValue correctAnswer =
     (case questionType of
        multiple_choice \<Rightarrow>
          if submittedValue \<noteq> None \<and> submittedValue = correctAnswer
          then (Some True, Some pts) else (Some False, Some 0)
      | true_false \<Rightarrow>
          if submittedValue \<noteq> None \<and> submittedValue = correctAnswer
          then (Some True, Some pts) else (Some False, Some 0)
      | open_answer \<Rightarrow> (None, None)
      | matching \<Rightarrow> (None, None))"

text \<open>What a \<open>pointsEarned\<close> adds to the score: a null adds nothing.\<close>

definition earned :: "decimal option \<Rightarrow> decimal" where
  "earned pe = (case pe of None \<Rightarrow> 0 | Some p \<Rightarrow> p)"

text \<open>What the specification's policy gives for a question of the page's exam.\<close>

definition graded :: "uuid \<Rightarrow> (uuid \<rightharpoonup> json) \<Rightarrow> db \<Rightarrow> question_row \<Rightarrow> bool option \<times> decimal option" where
  "graded uid ans d q =
     spec_grade (q_question_type q) (q_points q) (ans (q_id q))
       (select_correct_answer d uid (q_id q))"

text \<open>The JSON values that JavaScript compares by value.\<close>

fun is_primitive :: "json option \<Rightarrow> bool" where
  "is_primitive (Some (JArr _)) = False"
| "is_primitive (Some (JObj _)) = False"
| "is_primitive _ = True"

section \<open>Starting or resuming an attempt: loadExam\<close>

text \<open>
  \<^verbatim>\<open>from('exam_attempts').select('*').eq('exam_id', examId).eq('student_id', user.id)
  .order('attempt_number', {ascending: false})\<close>.
\<close>

definition select_attempts :: "db \<Rightarrow> uuid \<Rightarrow> uuid \<Rightarrow> attempt_row list" where
  "select_attempts d examId uid =
     rev (sort_key at_attempt_number
            (filter (\<lambda>a. at_exam_id a = examId \<and> at_student_id a = uid) (tbl_exam_attempts d)))"

definition with_questions :: "exam_row \<Rightarrow> question_row list \<Rightarrow> exam_data" where
  "with_questions e qs =
     \<lparr>e_id = e_id e, e_creator_id = e_creator_id e, e_access_code = e_access_code e,
      e_time_limit = e_time_limit e, e_max_attempts = e_max_attempts e, e_status = e_status e,
      e_show_results_immediately = e_show_results_immediately e, questions = qs\<rparr>"

text \<open>
  \<^verbatim>\<open>from('exams').select('*, questions(*)').eq('id', examId).eq('status', 'active').single()\<close>:
  without exactly one matching row the request is an error, which \<^verbatim>\<open>loadExam\<close> throws. The
  questions of an active exam are visible to everyone.
\<close>

definition select_active_exam :: "db \<Rightarrow> uuid \<Rightarrow> exam_data option" where
  "select_active_exam d examId =
     (case filter (\<lambda>e. e_id e = examId \<and> e_status e = active) (tbl_exams d) of
        [e] \<Rightarrow> Some (with_questions e (filter (\<lambda>q. q_exam_id q = e_id e) (tbl_questions d)))
      | _ \<Rightarrow> None)"

text \<open>
  \<^verbatim>\<open>from('exam_attempts').insert({exam_id, student_id, attempt_number}).select().single()\<close>.
  The other columns take their defaults: a generated id (\<^verbatim>\<open>new_id\<close>), \<^verbatim>\<open>started_at = now()\<close>,
  and NULL for \<^verbatim>\<open>completed_at\<close>, \<^verbatim>\<open>score\<close> and \<^verbatim>\<open>total_points\<close>. The store rejects the row
  on a primary key clash, on \<^verbatim>\<open>UNIQUE(exam_id, student_id, attempt_number)\<close>, and when a
  referenced row (the student's profile, the exam) is missing.
\<close>

definition insert_attempt ::
  "int \<Rightarrow> uuid \<Rightarrow> uuid \<Rightarrow> uuid \<Rightarrow> int \<Rightarrow> db \<Rightarrow> (attempt_row \<times> db) option" where
  "insert_attempt now new_id examId uid attemptNumber d =
     (if list_ex (\<lambda>a. at_id a = new_id) (tbl_exam_attempts d)
         \<or> list_ex (\<lambda>a. at_exam_id a = examId \<and> at_student_id a = uid
                          \<and> at_attempt_number a = attemptNumber) (tbl_exam_attempts d)
         \<or> \<not> list_ex (\<lambda>p. p_user_id p = uid) (tbl_profiles d)
         \<or> \<not> list_ex (\<lambda>e. e_id e = examId) (tbl_exams d)
      then None
      else
        let a = \<lparr>at_id = new_id, at_exam_id = examId, at_student_id = uid, at_started_at = now,
                 at_completed_at = None, at_score = None, at_total_points = None,
                 at_attempt_number = attemptNumber\<rparr>
        in Some (a, d\<lparr>tbl_exam_attempts := tbl_exam_attempts d @ [a]\<rparr>))"

text \<open>
  The answers of the resumed attempt, as the \<^verbatim>\<open>reduce\<close> over
  \<^verbatim>\<open>from('answers').select('*').eq('attempt_id', id)\<close> builds them.
\<close>

definition load_answers :: "db \<Rightarrow> uuid \<Rightarrow> (uuid \<rightharpoonup> json)" where
  "load_answers d aid =
     foldl (\<lambda>acc answer. acc(an_question_id answer \<mapsto> an_answer_value answer)) Map.empty
       (filter (\<lambda>r. an_attempt_id r = aid) (tbl_answers d))"

text \<open>
  The remaining seconds of a resumed attempt:
  \<^verbatim>\<open>Math.max(0, time_limit * 60 - Math.floor((now - startTime) / 1000))\<close>.
\<close>

definition remaining_time :: "int \<Rightarrow> int \<Rightarrow> int \<Rightarrow> int" where
  "remaining_time time_limit started now = max 0 (time_limit * 60 - (now - started) div 1000)"

datatype load_error = NotLoaded | LoadFailed | LimitReached

text \<open>
  \<^verbatim>\<open>loadExam\<close>. \<^const>\<open>NotLoaded\<close> is the early return (\<^verbatim>\<open>if (!examId || !user) return\<close>),
  \<^const>\<open>LoadFailed\<close> the \<^verbatim>\<open>catch\<close> branch ("No se pudo cargar el examen"), \<^const>\<open>LimitReached\<close>
  the toast of the attempt limit followed by the return to the dashboard. The branch
  \<^verbatim>\<open>if (!examData)\<close> cannot be taken: \<^verbatim>\<open>single()\<close> gives no data only together with an
  error, which is thrown just before. \<^verbatim>\<open>user\<close> is the signed-in identity, if any. The
  column \<^verbatim>\<open>max_attempts\<close> is nullable; in \<^verbatim>\<open>attempts.length >= max_attempts\<close> a null counts
  as 0, and it is not 999, so an exam without a limit value always hits the limit.
\<close>

definition loadExam ::
  "int \<Rightarrow> uuid \<Rightarrow> uuid option \<Rightarrow> uuid option \<Rightarrow> db \<Rightarrow> client \<Rightarrow> load_error + (db \<times> client)" where
  "loadExam now new_id examId user d c =
     (if \<not> truthy_str examId \<or> user = None then Inl NotLoaded
      else
        let attempts = select_attempts d (the examId) (the user) in
        case select_active_exam d (the examId) of
          None \<Rightarrow> Inl LoadFailed
        | Some examData \<Rightarrow>
            if (case e_max_attempts examData of
                  None \<Rightarrow> True
                | Some n \<Rightarrow> n \<le> int (length attempts) \<and> n \<noteq> 999)
            then Inl LimitReached
            else
              let sorted = examData\<lparr>questions := sort_key q_order_index (questions examData)\<rparr> in
              (case find (\<lambda>attempt. at_completed_at attempt = None) attempts of
                 Some incompleteAttempt \<Rightarrow>
                   Inr (d,
                        c\<lparr>exam := Some sorted,
                          answers := load_answers d (at_id incompleteAttempt),
                          timeLeft :=
                            (case e_time_limit examData of
                               None \<Rightarrow> timeLeft c
                             | Some limit \<Rightarrow>
                                 if limit = 0 then timeLeft c
                                 else Some (remaining_time limit (at_started_at incompleteAttempt) now)),
                          attemptId := Some (at_id incompleteAttempt)\<rparr>)
               | None \<Rightarrow>
                   (case insert_attempt now new_id (the examId) (the user)
                           (int (length attempts) + 1) d of
                      None \<Rightarrow> Inl LoadFailed
                    | Some (newAttempt, d') \<Rightarrow>
                        Inr (d',
                             c\<lparr>exam := Some sorted,
                               timeLeft :=
                                 (case e_time_limit examData of
                                    None \<Rightarrow> timeLeft c
                                  | Some limit \<Rightarrow> if limit = 0 then timeLeft c else Some (limit * 60)),
                               attemptId := Some (at_id newAttempt)\<rparr>))))"

section \<open>Saving an answer\<close>

text \<open>
  \<^verbatim>\<open>from('answers').upsert({attempt_id, question_id, answer_value})\<close>. A new row takes the
  column defaults: \<^verbatim>\<open>is_correct\<close> NULL and \<^verbatim>\<open>points_earned DECIMAL(5,2) DEFAULT 0\<close>. The
  request is refused when the attempt is not the caller's ("Students can manage their own
  answers"), when the question does not exist, and when the value is null
  (\<^verbatim>\<open>answer_value JSONB NOT NULL\<close>). When a row of the pair exists already, the outcome
  depends on which index the store lets the upsert arbitrate on: with \<^verbatim>\<open>merge\<close> the
  existing row takes the new value (its other columns stay), without it the request fails on
  \<^verbatim>\<open>UNIQUE(attempt_id, question_id)\<close>. The generated ids of the rows are left out.
\<close>

definition upsert_answer :: "bool \<Rightarrow> uuid \<Rightarrow> uuid \<Rightarrow> uuid \<Rightarrow> json \<Rightarrow> db \<Rightarrow> db option" where
  "upsert_answer merge uid aid qid v d =
     (if \<not> owns_attempt d uid aid
         \<or> \<not> list_ex (\<lambda>q. q_id q = qid) (tbl_questions d)
         \<or> v = JNull
      then None
      else if list_ex (\<lambda>r. an_attempt_id r = aid \<and> an_question_id r = qid) (tbl_answers d)
      then (if merge
            then Some (d\<lparr>tbl_answers :=
                          map (\<lambda>r. if an_attempt_id r = aid \<and> an_question_id r = qid
                                   then r\<lparr>an_answer_value := v\<rparr> else r)
                              (tbl_answers d)\<rparr>)
            else None)
      else Some (d\<lparr>tbl_answers := tbl_answers d @
                      [\<lparr>an_attempt_id = aid, an_question_id = qid, an_answer_value = v,
                        an_is_correct = None, an_points_earned = Some 0\<rparr>]\<rparr>))"

text \<open>\<^verbatim>\<open>saveAnswer\<close>: an error of the request is logged and nothing else happens.\<close>

definition saveAnswer :: "bool \<Rightarrow> uuid \<Rightarrow> client \<Rightarrow> uuid \<Rightarrow> json \<Rightarrow> db \<Rightarrow> db" where
  "saveAnswer merge uid c questionId answerValue d =
     (if \<not> truthy_str (attemptId c) then d
      else case upsert_answer merge uid (the (attemptId c)) questionId answerValue d of
             None \<Rightarrow> d
           | Some d' \<Rightarrow> d')"

definition handleAnswerChange ::
  "bool \<Rightarrow> uuid \<Rightarrow> uuid \<Rightarrow> json \<Rightarrow> db \<times> client \<Rightarrow> db \<times> client" where
  "handleAnswerChange merge uid questionId v st =
     (case st of (d, c) \<Rightarrow>
        (saveAnswer merge uid c questionId v d, c\<lparr>answers := (answers c)(questionId \<mapsto> v)\<rparr>))"

text \<open>A sequence of answer changes, each with the store's choice for its upsert.\<close>

fun answer_changes :: "uuid \<Rightarrow> (bool \<times> uuid \<times> json) list \<Rightarrow> db \<times> client \<Rightarrow> db \<times> client" where
  "answer_changes uid [] st = st"
| "answer_changes uid ((merge, questionId, v) # rest) st =
     answer_changes uid rest (handleAnswerChange merge uid questionId v st)"

section \<open>Access codes: generate\_access\_code\<close>

text \<open>
  \<^verbatim>\<open>upper(substring(md5(random()::text) from 1 for 8))\<close>. \<^verbatim>\<open>md5\<close> is the store's own function
  and a parameter here; \<^verbatim>\<open>rnd i\<close> is the text of the \<^verbatim>\<open>i\<close>-th random number drawn.
\<close>

definition upper_char :: "char \<Rightarrow> char" where
  "upper_char ch =
     (if 97 \<le> (of_char ch :: nat) \<and> (of_char ch :: nat) \<le> 122
      then char_of ((of_char ch :: nat) - 32) else ch)"

definition upper :: "string \<Rightarrow> string" where
  "upper s = map upper_char s"

text \<open>\<^verbatim>\<open>substring(s from start for count)\<close>, for a start position of at least 1.\<close>

definition substring :: "string \<Rightarrow> nat \<Rightarrow> nat \<Rightarrow> string" where
  "substring s start count = take count (drop (start - 1) s)"

definition draw_code :: "(string \<Rightarrow> string) \<Rightarrow> (nat \<Rightarrow> string) \<Rightarrow> nat \<Rightarrow> string" where
  "draw_code md5 rnd i = upper (substring (md5 (rnd i)) 1 8)"

text \<open>\<^verbatim>\<open>SELECT EXISTS(SELECT 1 FROM public.exams WHERE access_code = code)\<close>.\<close>

definition exists_code :: "db \<Rightarrow> string \<Rightarrow> bool" where
  "exists_code d code = list_ex (\<lambda>e. e_access_code e = code) (tbl_exams d)"

text \<open>
  The \<^verbatim>\<open>LOOP ... EXIT WHEN NOT exists_code; END LOOP\<close>, from the \<^verbatim>\<open>i\<close>-th draw on. The loop
  has no bound, so the function is partial: \<^const>\<open>None\<close> is the loop that never exits.
\<close>

partial_function (option) generate_access_code_from ::
  "(string \<Rightarrow> string) \<Rightarrow> (nat \<Rightarrow> string) \<Rightarrow> db \<Rightarrow> nat \<Rightarrow> string option" where
  "generate_access_code_from md5 rnd d i =
     (if exists_code d (draw_code md5 rnd i)
      then generate_access_code_from md5 rnd d (Suc i)
      else Some (draw_code md5 rnd i))"

definition generate_access_code :: "(string \<Rightarrow> string) \<Rightarrow> (nat \<Rightarrow> string) \<Rightarrow> db \<Rightarrow> string option" where
  "generate_access_code md5 rnd d = generate_access_code_from md5 rnd d 0"

definition is_upper_alnum :: "char \<Rightarrow> bool" where
  "is_upper_alnum ch =
     ((48 \<le> (of_char ch :: nat) \<and> (of_char ch :: nat) \<le> 57)
      \<or> (65 \<le> (of_char ch :: nat) \<and> (of_char ch :: nat) \<le> 90))"

definition is_md5_text :: "string \<Rightarrow> bool" where
  "is_md5_text s = (length s = 32 \<and> list_all (\<lambda>ch. ch \<in> set ''0123456789abcdef'') s)"

section \<open>Invariants of the attempts table\<close>

text \<open>
  The attempt numbers of one (exam, student) pair, and the two properties the schema and
  \<^verbatim>\<open>loadExam\<close> are meant to keep: the numbers of a pair are exactly 1 up to their count
  (sequential, no gaps), and no two rows share (exam, student, attempt number), as
  \<^verbatim>\<open>UNIQUE(exam_id, student_id, attempt_number)\<close> demands.
\<close>

definition attempt_numbers :: "db \<Rightarrow> uuid \<Rightarrow> uuid \<Rightarrow> int list" where
  "attempt_numbers d examId uid =
     map at_attempt_number
       (filter (\<lambda>a. at_exam_id a = examId \<and> at_student_id a = uid) (tbl_exam_attempts d))"

definition sequential :: "db \<Rightarrow> uuid \<Rightarrow> uuid \<Rightarrow> bool" where
  "sequential d examId uid =
     (distinct (attempt_numbers d examId uid)
      \<and> set (attempt_numbers d examId uid) = {1 .. int (length (attempt_numbers d examId uid))})"

definition unique_triples :: "db \<Rightarrow> bool" where
  "unique_triples d =
     distinct (map (\<lambda>a. (at_exam_id a, at_student_id a, at_attempt_number a)) (tbl_exam_attempts d))"

text \<open>An answer row as a save leaves it: not marked, with the default of \<^verbatim>\<open>points_earned\<close>.\<close>

definition ungraded :: "answer_row \<Rightarrow> bool" where
  "ungraded r = (an_is_correct r = None \<and> an_points_earned r = Some 0)"

text \<open>The page before \<^verbatim>\<open>loadExam\<close> has run: the initial values of its state.\<close>

definition initial_client :: client where
  "initial_client = \<lparr>exam = None, answers = Map.empty, timeLeft = None, attemptId = None\<rparr>"

text \<open>
  A student taking an exam \<open>k\<close> times in a row: each round loads the exam on a fresh page
  (round \<open>j\<close> at time \<open>clock j\<close>, the store generating the id \<open>ids j\<close> should it insert an
  attempt), changes some answers (\<open>ops j\<close>) and submits. \<^const>\<open>None\<close> when a round does not
  get through, because \<^verbatim>\<open>loadExam\<close> rejects or the submission is not carried out.
\<close>

fun attempt_rounds ::
  "(nat \<Rightarrow> int) \<Rightarrow> (nat \<Rightarrow> uuid) \<Rightarrow> (nat \<Rightarrow> (bool \<times> uuid \<times> json) list) \<Rightarrow> uuid \<Rightarrow> uuid
     \<Rightarrow> nat \<Rightarrow> db \<Rightarrow> db option" where
  "attempt_rounds clock ids ops examId uid 0 d = Some d"
| "attempt_rounds clock ids ops examId uid (Suc k) d =
     (case attempt_rounds clock ids ops examId uid k d of
        None \<Rightarrow> None
      | Some d1 \<Rightarrow>
          (case loadExam (clock k) (ids k) (Some examId) (Some uid) d1 initial_client of
             Inl err \<Rightarrow> None
           | Inr loaded \<Rightarrow>
               (case answer_changes uid (ops k) loaded of
                  (d2, c2) \<Rightarrow>
                    (case handleSubmitExam (clock k) uid d2 c2 of
                       (Submitted, d3) \<Rightarrow> Some d3
                     | (NotSubmitted, d3) \<Rightarrow> None
                     | (SubmitFailed, d3) \<Rightarrow> None))))"

section \<open>Example data\<close>

text \<open>
  An active exam of one teacher with a multiple choice question (2 points, correct index
  1), an open question (3 points) and a true/false question (1 point, correct answer true);
  one student with one attempt in progress, who chose index 1, wrote some text and chose
  false.
\<close>

definition sample_exam :: exam_row where
  "sample_exam =
     \<lparr>e_id = ''e1'', e_creator_id = ''t1'', e_access_code = ''ABCD1234'',
      e_time_limit = Some 30, e_max_attempts = Some 1, e_status = active,
      e_show_results_immediately = True\<rparr>"

definition sample_q1 :: question_row where
  "sample_q1 =
     \<lparr>q_id = ''q1'', q_exam_id = ''e1'', q_question_type = multiple_choice, q_points = 200,
      q_order_index = 0, q_correct_answer = JNum 1\<rparr>"

definition sample_q2 :: question_row where
  "sample_q2 =
     \<lparr>q_id = ''q2'', q_exam_id = ''e1'', q_question_type = open_answer, q_points = 300,
      q_order_index = 1, q_correct_answer = JStr ''''\<rparr>"

definition sample_q3 :: question_row where
  "sample_q3 =
     \<lparr>q_id = ''q3'', q_exam_id = ''e1'', q_question_type = true_false, q_points = 100,
      q_order_index = 2, q_correct_answer = JBool True\<rparr>"

definition sample_attempt :: attempt_row where
  "sample_attempt =
     \<lparr>at_id = ''a1'', at_exam_id = ''e1'', at_student_id = ''s1'', at_started_at = 0,
      at_completed_at = None, at_score = None, at_total_points = None, at_attempt_number = 1\<rparr>"

definition sample_db :: db where
  "sample_db =
     \<lparr>tbl_profiles = [\<lparr>p_user_id = ''t1'', p_role = teacher\<rparr>,
                      \<lparr>p_user_id = ''s1'', p_role = student\<rparr>],
      tbl_exams = [sample_exam],
      tbl_questions = [sample_q1, sample_q2, sample_q3],
      tbl_exam_attempts = [sample_attempt],
      tbl_answers =
        [\<lparr>an_attempt_id = ''a1'', an_question_id = ''q1'', an_answer_value = JNum 1,
          an_is_correct = None, an_points_earned = Some 0\<rparr>,
         \<lparr>an_attempt_id = ''a1'', an_question_id = ''q2'', an_answer_value = JStr ''some text'',
          an_is_correct = None, an_points_earned = Some 0\<rparr>,
         \<lparr>an_attempt_id = ''a1'', an_question_id = ''q3'', an_answer_value = JBool False,
          an_is_correct = None, an_points_earned = Some 0\<rparr>]\<rparr>"

definition sample_answers :: "uuid \<rightharpoonup> json" where
  "sample_answers = [''q1'' \<mapsto> JNum 1, ''q2'' \<mapsto> JStr ''some text'', ''q3'' \<mapsto> JBool False]"

definition sample_client :: client where
  "sample_client =
     \<lparr>exam = Some (with_questions sample_exam [sample_q1, sample_q2, sample_q3]),
      answers = sample_answers, timeLeft = Some 1800, attemptId = Some ''a1''\<rparr>"

text \<open>
  A stand-in with the output format of \<^verbatim>\<open>md5\<close> (32 lower-case hexadecimal digits) and a
  sequence of random texts whose first draw gives the code of the example exam.
\<close>

definition sample_md5 :: "string \<Rightarrow> string" where
  "sample_md5 s =
     take 32 (filter (\<lambda>ch. ch \<in> set ''0123456789abcdef'') s @ replicate 32 (CHR ''0''))"

definition sample_rnd :: "nat \<Rightarrow> string" where
  "sample_rnd i = (if i = 0 then ''abcd1234'' else ''0.42'')"

text \<open>
  Variations of the example: the student changes the first answer to index 0; nothing was
  answered; the exam allows unlimited attempts; the student has no attempt yet; the teacher
  has taken the exam offline.
\<close>

definition sample_client_changed :: client where
  "sample_client_changed = sample_client\<lparr>answers := sample_answers(''q1'' \<mapsto> JNum 0)\<rparr>"

definition sample_db_unanswered :: db where
  "sample_db_unanswered = sample_db\<lparr>tbl_answers := []\<rparr>"

definition sample_client_unanswered :: client where
  "sample_client_unanswered = sample_client\<lparr>answers := Map.empty\<rparr>"

definition sample_db_unlimited :: db where
  "sample_db_unlimited = sample_db\<lparr>tbl_exams := [sample_exam\<lparr>e_max_attempts := Some 999\<rparr>]\<rparr>"

definition sample_db_fresh :: db where
  "sample_db_fresh = sample_db\<lparr>tbl_exam_attempts := [], tbl_answers := []\<rparr>"

definition sample_db_inactive :: db where
  "sample_db_inactive = sample_db\<lparr>tbl_exams := [sample_exam\<lparr>e_status := inactive\<rparr>]\<rparr>"


section \<open>Properties of the grading loop\<close>

lemma strict_eq_primitive: "is_primitive (Some ca) \<Longrightarrow> strict_eq ua ca = (ua = Some ca)"
  by (cases "(ua, ca)" rule: strict_eq.cases) auto

lemma select_correct_answer_cong:
  "tbl_profiles d' = tbl_profiles d \<Longrightarrow> tbl_exams d' = tbl_exams d \<Longrightarrow>
   tbl_questions d' = tbl_questions d \<Longrightarrow>
   select_correct_answer d' uid qid = select_correct_answer d uid qid"
  by (simp add: select_correct_answer_def can_view_question_def)

lemma update_answers_tables [simp]:
  "tbl_profiles (update_answers uid ic pe aid qid d) = tbl_profiles d"
  "tbl_exams (update_answers uid ic pe aid qid d) = tbl_exams d"
  "tbl_questions (update_answers uid ic pe aid qid d) = tbl_questions d"
  "tbl_exam_attempts (update_answers uid ic pe aid qid d) = tbl_exam_attempts d"
  by (simp_all add: update_answers_def)

lemma grade_question_spec:
  assumes "is_primitive (select_correct_answer d uid (q_id q))"
  shows "grade_question uid aid ans q (s, t, d) =
           (s + earned (snd (graded uid ans d q)), t + q_points q,
            update_answers uid (fst (graded uid ans d q)) (snd (graded uid ans d q)) aid (q_id q) d)"
proof (cases "select_correct_answer d uid (q_id q)")
  case None
  then show ?thesis
    by (cases "q_question_type q")
       (auto simp: grade_question_def graded_def spec_grade_def earned_def Let_def)
next
  case (Some ca)
  with assms have "strict_eq (ans (q_id q)) ca = (ans (q_id q) = Some ca)"
    by (simp add: strict_eq_primitive)
  with Some show ?thesis
    by (cases "q_question_type q")
       (simp_all add: grade_question_def graded_def spec_grade_def earned_def Let_def)
qed

lemma grade_question_tables:
  "tbl_profiles (snd (snd (grade_question uid aid ans q (s, t, d)))) = tbl_profiles d"
  "tbl_exams (snd (snd (grade_question uid aid ans q (s, t, d)))) = tbl_exams d"
  "tbl_questions (snd (snd (grade_question uid aid ans q (s, t, d)))) = tbl_questions d"
  "tbl_exam_attempts (snd (snd (grade_question uid aid ans q (s, t, d)))) = tbl_exam_attempts d"
  by (simp_all add: grade_question_def Let_def split: option.split)

lemma grade_question_totalPoints:
  "fst (snd (grade_question uid aid ans q (s, t, d))) = t + q_points q"
  by (simp add: grade_question_def Let_def split: option.split)

lemma grade_question_score_bounds:
  "0 \<le> q_points q \<Longrightarrow>
   s \<le> fst (grade_question uid aid ans q (s, t, d)) \<and>
   fst (grade_question uid aid ans q (s, t, d)) \<le> s + q_points q"
  by (simp add: grade_question_def Let_def split: option.split)


lemma grade_question_score_cong:
  assumes "tbl_profiles d' = tbl_profiles d" "tbl_exams d' = tbl_exams d"
    "tbl_questions d' = tbl_questions d"
  shows "fst (grade_question uid aid ans q (s, t, d')) = fst (grade_question uid aid ans q (s, t, d))"
  using select_correct_answer_cong [OF assms, of uid "q_id q"]
  by (simp add: grade_question_def Let_def split: option.split)

lemma grade_loop_tables:
  "tbl_profiles (snd (snd (grade_loop uid aid ans qs (s, t, d)))) = tbl_profiles d \<and>
   tbl_exams (snd (snd (grade_loop uid aid ans qs (s, t, d)))) = tbl_exams d \<and>
   tbl_questions (snd (snd (grade_loop uid aid ans qs (s, t, d)))) = tbl_questions d \<and>
   tbl_exam_attempts (snd (snd (grade_loop uid aid ans qs (s, t, d)))) = tbl_exam_attempts d"
proof (induction qs arbitrary: s t d)
  case Nil
  show ?case by simp
next
  case (Cons q qs)
  obtain s1 t1 d1 where gq: "grade_question uid aid ans q (s, t, d) = (s1, t1, d1)"
    by (cases "grade_question uid aid ans q (s, t, d)") auto
  from grade_question_tables [of uid aid ans q s t d] gq
  have "tbl_profiles d1 = tbl_profiles d" "tbl_exams d1 = tbl_exams d"
    "tbl_questions d1 = tbl_questions d" "tbl_exam_attempts d1 = tbl_exam_attempts d"
    by simp_all
  with Cons.IH [of s1 t1 d1] gq show ?case by simp
qed

lemma grade_loop_totalPoints:
  "fst (snd (grade_loop uid aid ans qs (s, t, d))) = t + sum_list (map q_points qs)"
proof (induction qs arbitrary: s t d)
  case Nil
  show ?case by simp
next
  case (Cons q qs)
  obtain s1 t1 d1 where gq: "grade_question uid aid ans q (s, t, d) = (s1, t1, d1)"
    by (cases "grade_question uid aid ans q (s, t, d)") auto
  from grade_question_totalPoints [of uid aid ans q s t d] gq
  have "t1 = t + q_points q" by simp
  with Cons.IH [of s1 t1 d1] gq show ?case by simp
qed

lemma grade_loop_score_bounds:
  assumes "\<forall>q\<in>set qs. 0 \<le> q_points q"
  shows "s \<le> fst (grade_loop uid aid ans qs (s, t, d)) \<and>
         fst (grade_loop uid aid ans qs (s, t, d)) \<le> s + sum_list (map q_points qs)"
  using assms
proof (induction qs arbitrary: s t d)
  case Nil
  show ?case by simp
next
  case (Cons q qs)
  obtain s1 t1 d1 where gq: "grade_question uid aid ans q (s, t, d) = (s1, t1, d1)"
    by (cases "grade_question uid aid ans q (s, t, d)") auto
  from Cons.prems have "0 \<le> q_points q" by simp
  from grade_question_score_bounds [OF this, of s uid aid ans t d] gq
  have b: "s \<le> s1" "s1 \<le> s + q_points q" by simp_all
  from Cons.prems have "\<forall>q\<in>set qs. 0 \<le> q_points q" by simp
  from Cons.IH [OF this, of s1 t1 d1] b gq show ?case by simp
qed

lemma grade_loop_score_spec:
  assumes "\<forall>q\<in>set qs. is_primitive (select_correct_answer d uid (q_id q))"
  shows "fst (grade_loop uid aid ans qs (s, t, d)) =
           s + (\<Sum>q\<leftarrow>qs. earned (snd (graded uid ans d q)))"
  using assms
proof (induction qs arbitrary: s t d)
  case Nil
  show ?case by simp
next
  case (Cons q qs)
  let ?d1 = "update_answers uid (fst (graded uid ans d q)) (snd (graded uid ans d q)) aid (q_id q) d"
  from Cons.prems have "is_primitive (select_correct_answer d uid (q_id q))" by simp
  then have gq: "grade_question uid aid ans q (s, t, d) =
      (s + earned (snd (graded uid ans d q)), t + q_points q, ?d1)"
    by (rule grade_question_spec)
  have sel: "select_correct_answer ?d1 uid qid = select_correct_answer d uid qid" for qid
    by (rule select_correct_answer_cong) simp_all
  then have gr: "graded uid ans ?d1 q' = graded uid ans d q'" for q'
    by (simp add: graded_def)
  from Cons.prems sel have "\<forall>q\<in>set qs. is_primitive (select_correct_answer ?d1 uid (q_id q))"
    by simp
  from Cons.IH [OF this] gq gr show ?case by simp
qed

lemma grade_loop_score_cong:
  assumes "tbl_profiles d' = tbl_profiles d" "tbl_exams d' = tbl_exams d"
    "tbl_questions d' = tbl_questions d"
  shows "fst (grade_loop uid aid ans qs (s, t, d')) = fst (grade_loop uid aid ans qs (s, t, d))"
  using assms
proof (induction qs arbitrary: s t d d')
  case Nil
  show ?case by simp
next
  case (Cons q qs)
  obtain s1 t1 d1 where gq: "grade_question uid aid ans q (s, t, d) = (s1, t1, d1)"
    by (cases "grade_question uid aid ans q (s, t, d)") auto
  obtain s2 t2 d2 where gq': "grade_question uid aid ans q (s, t, d') = (s2, t2, d2)"
    by (cases "grade_question uid aid ans q (s, t, d')") auto
  from grade_question_score_cong [OF Cons.prems, of uid aid ans q s t] gq gq'
  have s: "s2 = s1" by simp
  from grade_question_totalPoints [of uid aid ans q s t d] gq
       grade_question_totalPoints [of uid aid ans q s t d'] gq'
  have t: "t2 = t1" by simp
  from grade_question_tables [of uid aid ans q s t d] gq
       grade_question_tables [of uid aid ans q s t d'] gq' Cons.prems
  have "tbl_profiles d2 = tbl_profiles d1" "tbl_exams d2 = tbl_exams d1"
    "tbl_questions d2 = tbl_questions d1" by simp_all
  from Cons.IH [OF this, of s1 t1] gq gq' s t show ?case by simp
qed


lemma update_answers_no_row:
  assumes "\<forall>r\<in>set (tbl_answers d). \<not> (an_attempt_id r = aid \<and> an_question_id r = qid)"
  shows "update_answers uid ic pe aid qid d = d"
proof -
  from assms have "map (\<lambda>r. if an_attempt_id r = aid \<and> an_question_id r = qid
                     \<and> owns_attempt d uid (an_attempt_id r)
                  then r\<lparr>an_is_correct := ic, an_points_earned := pe\<rparr> else r) (tbl_answers d)
        = tbl_answers d"
    by (intro map_idI) auto
  then show ?thesis by (simp add: update_answers_def)
qed

lemma handleSubmitExam_SubmittedD:
  assumes "handleSubmitExam now uid d c = (Submitted, d')"
  obtains aid ex s t g where
    "attemptId c = Some aid" "aid \<noteq> []" "exam c = Some ex"
    "grade_loop uid aid (answers c) (questions ex) (0, 0, d) = (s, t, g)"
    "fits_decimal s" "fits_decimal t"
    "d' = g\<lparr>tbl_exam_attempts :=
              map (\<lambda>r. if at_id r = aid \<and> at_student_id r = uid
                       then r\<lparr>at_completed_at := Some now, at_score := Some s,
                              at_total_points := Some t\<rparr>
                       else r)
                  (tbl_exam_attempts g)\<rparr>"
proof -
  from assms have tr: "truthy_str (attemptId c)"
    by (cases "truthy_str (attemptId c)") (simp_all add: handleSubmitExam_def)
  then obtain aid where aid: "attemptId c = Some aid" "aid \<noteq> []"
    by (cases "attemptId c") (simp_all add: truthy_str_def)
  from assms tr obtain ex where ex: "exam c = Some ex"
    by (cases "exam c") (simp_all add: handleSubmitExam_def)
  obtain s t g where loop: "grade_loop uid aid (answers c) (questions ex) (0, 0, d) = (s, t, g)"
    by (cases "grade_loop uid aid (answers c) (questions ex) (0, 0, d)") auto
  from assms tr aid ex loop
  have ca: "(case complete_attempt now uid s t aid g of Some d2 \<Rightarrow> (Submitted, d2)
             | None \<Rightarrow> (SubmitFailed, g)) = (Submitted, d')"
    by (simp add: handleSubmitExam_def)
  then have fits: "fits_decimal s \<and> fits_decimal t"
    by (cases "fits_decimal s \<and> fits_decimal t") (simp_all add: complete_attempt_def)
  with ca have "d' = g\<lparr>tbl_exam_attempts :=
              map (\<lambda>r. if at_id r = aid \<and> at_student_id r = uid
                       then r\<lparr>at_completed_at := Some now, at_score := Some s,
                              at_total_points := Some t\<rparr>
                       else r)
                  (tbl_exam_attempts g)\<rparr>"
    by (simp add: complete_attempt_def)
  with aid ex loop fits that show thesis by blast
qed

lemma completed_row:
  assumes "r \<in> set (map (\<lambda>r. if at_id r = aid \<and> at_student_id r = uid
                       then r\<lparr>at_completed_at := Some now, at_score := Some s,
                              at_total_points := Some t\<rparr>
                       else r) rows)"
    and "at_id r = aid" and "at_student_id r = uid"
  shows "at_completed_at r = Some now \<and> at_score r = Some s \<and> at_total_points r = Some t"
proof -
  from assms(1) obtain r0 where
    r: "r = (if at_id r0 = aid \<and> at_student_id r0 = uid
             then r0\<lparr>at_completed_at := Some now, at_score := Some s, at_total_points := Some t\<rparr>
             else r0)"
    unfolding set_map by (rule imageE)
  show ?thesis
  proof (cases "at_id r0 = aid \<and> at_student_id r0 = uid")
    case True
    with r show ?thesis by simp
  next
    case False
    with r have "r = r0" by simp
    with False assms(2,3) show ?thesis by simp
  qed
qed

lemmas sample_defs = sample_db_def sample_client_def sample_exam_def sample_q1_def sample_q2_def
  sample_q3_def sample_attempt_def sample_answers_def with_questions_def initial_client_def
  sample_client_changed_def sample_db_unanswered_def sample_client_unanswered_def
  sample_db_unlimited_def sample_db_fresh_def sample_db_inactive_def

lemmas submit_defs = handleSubmitExam_def truthy_str_def grade_question_def
  select_correct_answer_def can_view_question_def update_answers_def owns_attempt_def
  complete_attempt_def
  fits_decimal_def Let_def

lemmas save_defs = handleAnswerChange_def saveAnswer_def upsert_answer_def owns_attempt_def
  truthy_str_def

section \<open>Claims about grading and submission\<close>




text \<open>
  C2. When a submission succeeds, the attempt's persisted \<open>total_points\<close> is the sum of
  the points of every question of the exam, whatever its type (the attempt row being the
  caller's own, which is the row the store lets the caller write); and, when the readable
  answer keys are values that compare by value (indices, booleans, strings, null), the
  persisted \<open>score\<close> is the sum of the non-null \<open>pointsEarned\<close> that the specification's
  policy gives, a null counting for nothing.
\<close>

theorem handleSubmitExam_totals:
  assumes "handleSubmitExam now uid d c = (Submitted, d')"
    and "exam c = Some ex" and "attemptId c = Some aid"
    and "r \<in> set (tbl_exam_attempts d')" and "at_id r = aid" and "at_student_id r = uid"
  shows "at_total_points r = Some (sum_list (map q_points (questions ex)))
       \<and> ((\<forall>q\<in>set (questions ex). is_primitive (select_correct_answer d uid (q_id q)))
          \<longrightarrow> at_score r = Some (\<Sum>q\<leftarrow>questions ex.
                 earned (snd (spec_grade (q_question_type q) (q_points q) (answers c (q_id q))
                                 (select_correct_answer d uid (q_id q))))))"
proof -
  from assms(1) obtain aid' ex' s t g where
    sub: "attemptId c = Some aid'" "exam c = Some ex'"
      "grade_loop uid aid' (answers c) (questions ex') (0, 0, d) = (s, t, g)"
      "d' = g\<lparr>tbl_exam_attempts :=
              map (\<lambda>r. if at_id r = aid' \<and> at_student_id r = uid
                       then r\<lparr>at_completed_at := Some now, at_score := Some s,
                              at_total_points := Some t\<rparr>
                       else r)
                  (tbl_exam_attempts g)\<rparr>"
    by (rule handleSubmitExam_SubmittedD)
  from sub(1,2) assms(2,3) have eq: "aid' = aid" "ex' = ex" by simp_all
  from sub(4) assms(4) eq
  have "r \<in> set (map (\<lambda>r. if at_id r = aid \<and> at_student_id r = uid
                       then r\<lparr>at_completed_at := Some now, at_score := Some s,
                              at_total_points := Some t\<rparr>
                       else r) (tbl_exam_attempts g))"
    by simp
  from completed_row [OF this assms(5,6)]
  have row: "at_score r = Some s" "at_total_points r = Some t" by simp_all
  from grade_loop_totalPoints [of uid aid "answers c" "questions ex" 0 0 d] sub(3) eq
  have t: "t = sum_list (map q_points (questions ex))" by simp
  have "s = (\<Sum>q\<leftarrow>questions ex.
                 earned (snd (spec_grade (q_question_type q) (q_points q) (answers c (q_id q))
                                 (select_correct_answer d uid (q_id q)))))"
    if "\<forall>q\<in>set (questions ex). is_primitive (select_correct_answer d uid (q_id q))"
    using grade_loop_score_spec [OF that, of aid "answers c" 0 0] sub(3) eq
    by (simp add: graded_def)
  with row t show ?thesis by simp
qed

lemma sample_submit:
  "handleSubmitExam 1000 ''s1'' sample_db sample_client =
     (Submitted,
      sample_db\<lparr>tbl_exam_attempts :=
                  [sample_attempt\<lparr>at_completed_at := Some 1000, at_score := Some 200,
                                 at_total_points := Some 600\<rparr>],
                tbl_answers :=
        [\<lparr>an_attempt_id = ''a1'', an_question_id = ''q1'', an_answer_value = JNum 1,
          an_is_correct = Some True, an_points_earned = Some 200\<rparr>,
         \<lparr>an_attempt_id = ''a1'', an_question_id = ''q2'', an_answer_value = JStr ''some text'',
          an_is_correct = None, an_points_earned = None\<rparr>,
         \<lparr>an_attempt_id = ''a1'', an_question_id = ''q3'', an_answer_value = JBool False,
          an_is_correct = Some False, an_points_earned = Some 0\<rparr>]\<rparr>)"
  by (simp add: submit_defs sample_defs)

theorem handleSubmitExam_totals_witness:
  "fst (handleSubmitExam 1000 ''s1'' sample_db sample_client) = Submitted
 \<and> (\<exists>r\<in>set (tbl_exam_attempts (snd (handleSubmitExam 1000 ''s1'' sample_db sample_client))).
       at_id r = ''a1''
       \<and> at_total_points r = Some (sum_list (map q_points [sample_q1, sample_q2, sample_q3]))
       \<and> at_score r = Some (\<Sum>q\<leftarrow>[sample_q1, sample_q2, sample_q3].
                 earned (snd (spec_grade (q_question_type q) (q_points q) (sample_answers (q_id q))
                                 (select_correct_answer sample_db ''s1'' (q_id q))))))
 \<and> sum_list (map q_points [sample_q1, sample_q2, sample_q3]) = 600
 \<and> (\<Sum>q\<leftarrow>[sample_q1, sample_q2, sample_q3].
       earned (snd (spec_grade (q_question_type q) (q_points q) (sample_answers (q_id q))
                       (select_correct_answer sample_db ''s1'' (q_id q))))) = 200"
proof -
  let ?r = "sample_attempt\<lparr>at_completed_at := Some 1000, at_score := Some 200,
                          at_total_points := Some 600\<rparr>"
  let ?ex = "with_questions sample_exam [sample_q1, sample_q2, sample_q3]"
  have h2: "exam sample_client = Some ?ex"
    and h3: "attemptId sample_client = Some ''a1''"
    by (simp_all add: sample_client_def)
  have h4: "?r \<in> set (tbl_exam_attempts (sample_db\<lparr>tbl_exam_attempts := [?r], tbl_answers :=
        [\<lparr>an_attempt_id = ''a1'', an_question_id = ''q1'', an_answer_value = JNum 1,
          an_is_correct = Some True, an_points_earned = Some 200\<rparr>,
         \<lparr>an_attempt_id = ''a1'', an_question_id = ''q2'', an_answer_value = JStr ''some text'',
          an_is_correct = None, an_points_earned = None\<rparr>,
         \<lparr>an_attempt_id = ''a1'', an_question_id = ''q3'', an_answer_value = JBool False,
          an_is_correct = Some False, an_points_earned = Some 0\<rparr>]\<rparr>))"
    by simp
  have h5: "at_id ?r = ''a1''" and h6: "at_student_id ?r = ''s1''"
    by (simp_all add: sample_attempt_def)
  have keys: "select_correct_answer sample_db ''s1'' ''q1'' = Some (JNum 1)"
    "select_correct_answer sample_db ''s1'' ''q2'' = Some (JStr [])"
    "select_correct_answer sample_db ''s1'' ''q3'' = Some (JBool True)"
    by (simp_all add: select_correct_answer_def can_view_question_def sample_defs)
  have qs: "questions ?ex = [sample_q1, sample_q2, sample_q3]"
    by (simp add: with_questions_def)
  have ids: "q_id sample_q1 = ''q1''" "q_id sample_q2 = ''q2''" "q_id sample_q3 = ''q3''"
    by (simp_all add: sample_defs)
  have prim: "\<forall>q\<in>set (questions ?ex). is_primitive (select_correct_answer sample_db ''s1'' (q_id q))"
    by (simp add: qs ids keys)
  have ans: "answers sample_client = sample_answers" by (simp add: sample_client_def)
  from handleSubmitExam_totals [OF sample_submit h2 h3 h4 h5 h6] prim
  have row: "at_total_points ?r = Some (sum_list (map q_points [sample_q1, sample_q2, sample_q3]))
       \<and> at_score ?r = Some (\<Sum>q\<leftarrow>[sample_q1, sample_q2, sample_q3].
                 earned (snd (spec_grade (q_question_type q) (q_points q) (sample_answers (q_id q))
                                 (select_correct_answer sample_db ''s1'' (q_id q)))))"
    unfolding qs ans by blast
  have tot: "sum_list (map q_points [sample_q1, sample_q2, sample_q3]) = 600"
    by (simp add: sample_defs)
  have sc: "(\<Sum>q\<leftarrow>[sample_q1, sample_q2, sample_q3].
       earned (snd (spec_grade (q_question_type q) (q_points q) (sample_answers (q_id q))
                       (select_correct_answer sample_db ''s1'' (q_id q))))) = 200"
    by (simp add: ids keys) (simp add: sample_defs spec_grade_def earned_def)
  have "fst (handleSubmitExam 1000 ''s1'' sample_db sample_client) = Submitted"
    by (simp add: sample_submit)
  moreover have "\<exists>r\<in>set (tbl_exam_attempts (snd (handleSubmitExam 1000 ''s1'' sample_db sample_client))).
       at_id r = ''a1''
       \<and> at_total_points r = Some (sum_list (map q_points [sample_q1, sample_q2, sample_q3]))
       \<and> at_score r = Some (\<Sum>q\<leftarrow>[sample_q1, sample_q2, sample_q3].
                 earned (snd (spec_grade (q_question_type q) (q_points q) (sample_answers (q_id q))
                                 (select_correct_answer sample_db ''s1'' (q_id q)))))"
    unfolding sample_submit using h4 h5 row by (intro bexI [of _ ?r]) simp_all
  ultimately show ?thesis using tot sc by blast
qed

text \<open>
  C10. When a submission succeeds and no question of the exam has negative points, the
  persisted score is at most the persisted total: the attempt row holds both values, and
  the first is less than or equal to the second.
\<close>

theorem handleSubmitExam_score_le_total:
  assumes "handleSubmitExam now uid d c = (Submitted, d')"
    and "exam c = Some ex" and "attemptId c = Some aid"
    and "\<forall>q\<in>set (questions ex). 0 \<le> q_points q"
    and "r \<in> set (tbl_exam_attempts d')" and "at_id r = aid" and "at_student_id r = uid"
  shows "\<exists>s t. at_score r = Some s \<and> at_total_points r = Some t \<and> s \<le> t"
proof -
  from assms(1) obtain aid' ex' s t g where
    sub: "attemptId c = Some aid'" "exam c = Some ex'"
      "grade_loop uid aid' (answers c) (questions ex') (0, 0, d) = (s, t, g)"
      "d' = g\<lparr>tbl_exam_attempts :=
              map (\<lambda>r. if at_id r = aid' \<and> at_student_id r = uid
                       then r\<lparr>at_completed_at := Some now, at_score := Some s,
                              at_total_points := Some t\<rparr>
                       else r)
                  (tbl_exam_attempts g)\<rparr>"
    by (rule handleSubmitExam_SubmittedD)
  from sub(1,2) assms(2,3) have eq: "aid' = aid" "ex' = ex" by simp_all
  from sub(4) assms(5) eq
  have "r \<in> set (map (\<lambda>r. if at_id r = aid \<and> at_student_id r = uid
                       then r\<lparr>at_completed_at := Some now, at_score := Some s,
                              at_total_points := Some t\<rparr>
                       else r) (tbl_exam_attempts g))"
    by simp
  from completed_row [OF this assms(6,7)]
  have row: "at_score r = Some s" "at_total_points r = Some t" by simp_all
  from grade_loop_totalPoints [of uid aid "answers c" "questions ex" 0 0 d] sub(3) eq
  have "t = sum_list (map q_points (questions ex))" by simp
  moreover from grade_loop_score_bounds [OF assms(4), of 0 uid aid "answers c" 0 d] sub(3) eq
  have "s \<le> sum_list (map q_points (questions ex))" by simp
  ultimately have "s \<le> t" by simp
  with row show ?thesis by simp
qed

theorem handleSubmitExam_score_le_total_witness:
  "fst (handleSubmitExam 1000 ''s1'' sample_db sample_client) = Submitted
 \<and> (\<exists>r\<in>set (tbl_exam_attempts (snd (handleSubmitExam 1000 ''s1'' sample_db sample_client))).
       at_id r = ''a1'' \<and> (\<exists>s t. at_score r = Some s \<and> at_total_points r = Some t \<and> s \<le> t))"
proof -
  let ?r = "sample_attempt\<lparr>at_completed_at := Some 1000, at_score := Some 200,
                          at_total_points := Some 600\<rparr>"
  have h2: "exam sample_client = Some (with_questions sample_exam [sample_q1, sample_q2, sample_q3])"
    and h3: "attemptId sample_client = Some ''a1''"
    by (simp_all add: sample_client_def)
  have h4: "\<forall>q\<in>set (questions (with_questions sample_exam [sample_q1, sample_q2, sample_q3])).
              0 \<le> q_points q"
    by (simp add: sample_defs)
  have h5: "at_id ?r = ''a1''" and h6: "at_student_id ?r = ''s1''"
    by (simp_all add: sample_attempt_def)
  from handleSubmitExam_score_le_total [OF sample_submit h2 h3 h4 _ h5 h6]
  have "\<exists>s t. at_score ?r = Some s \<and> at_total_points ?r = Some t \<and> s \<le> t"
    by simp
  with sample_submit h5 show ?thesis by simp
qed

text \<open>
  C3, as the code has it. \<^verbatim>\<open>handleSubmitExam\<close> never reads \<^verbatim>\<open>completed_at\<close> and has no
  rejection for a completed attempt. After a successful submission, a further call for the
  same attempt (from any page state holding that attempt id) is carried out again: it
  succeeds whenever it would have succeeded as a first submission, and it leaves the
  attempts table exactly as that first submission would have left it, so score,
  total\_points and completed\_at are overwritten with the newly computed values. With
  an unchanged page state the overwritten score and total\_points are the same values again.
\<close>

theorem handleSubmitExam_again_overwrites:
  assumes first: "handleSubmitExam now uid d c = (Submitted, d1)"
    and same: "attemptId c2 = attemptId c"
    and alone: "handleSubmitExam now' uid d c2 = (Submitted, d2)"
  shows "\<exists>d3. handleSubmitExam now' uid d1 c2 = (Submitted, d3)
              \<and> tbl_exam_attempts d3 = tbl_exam_attempts d2"
proof -
  from first obtain aid ex s1 t1 g1 where
    f: "attemptId c = Some aid" "aid \<noteq> []" "exam c = Some ex"
      "grade_loop uid aid (answers c) (questions ex) (0, 0, d) = (s1, t1, g1)"
      "fits_decimal s1" "fits_decimal t1"
      "d1 = g1\<lparr>tbl_exam_attempts :=
              map (\<lambda>r. if at_id r = aid \<and> at_student_id r = uid
                       then r\<lparr>at_completed_at := Some now, at_score := Some s1,
                              at_total_points := Some t1\<rparr>
                       else r)
                  (tbl_exam_attempts g1)\<rparr>"
    by (rule handleSubmitExam_SubmittedD)
  from alone obtain aid2 ex2 s2 t2 g2 where
    a: "attemptId c2 = Some aid2" "aid2 \<noteq> []" "exam c2 = Some ex2"
      "grade_loop uid aid2 (answers c2) (questions ex2) (0, 0, d) = (s2, t2, g2)"
      "fits_decimal s2" "fits_decimal t2"
      "d2 = g2\<lparr>tbl_exam_attempts :=
              map (\<lambda>r. if at_id r = aid2 \<and> at_student_id r = uid
                       then r\<lparr>at_completed_at := Some now', at_score := Some s2,
                              at_total_points := Some t2\<rparr>
                       else r)
                  (tbl_exam_attempts g2)\<rparr>"
    by (rule handleSubmitExam_SubmittedD)
  from same f(1) a(1) have aid2: "aid2 = aid" by simp
  from grade_loop_tables [of uid aid "answers c" "questions ex" 0 0 d] f(4)
  have g1: "tbl_profiles g1 = tbl_profiles d" "tbl_exams g1 = tbl_exams d"
    "tbl_questions g1 = tbl_questions d" "tbl_exam_attempts g1 = tbl_exam_attempts d"
    by simp_all
  with f(7) have d1: "tbl_profiles d1 = tbl_profiles d" "tbl_exams d1 = tbl_exams d"
    "tbl_questions d1 = tbl_questions d"
    and att1: "tbl_exam_attempts d1 =
              map (\<lambda>r. if at_id r = aid \<and> at_student_id r = uid
                       then r\<lparr>at_completed_at := Some now, at_score := Some s1,
                              at_total_points := Some t1\<rparr>
                       else r)
                  (tbl_exam_attempts d)"
    by simp_all
  from grade_loop_tables [of uid aid "answers c2" "questions ex2" 0 0 d] a(4) aid2
  have g2: "tbl_exam_attempts g2 = tbl_exam_attempts d" by simp
  obtain s3 t3 g3 where
    l3: "grade_loop uid aid (answers c2) (questions ex2) (0, 0, d1) = (s3, t3, g3)"
    by (cases "grade_loop uid aid (answers c2) (questions ex2) (0, 0, d1)") auto
  from grade_loop_score_cong [OF d1, of uid aid "answers c2" "questions ex2" 0 0] l3 a(4) aid2
  have s3: "s3 = s2" by simp
  from grade_loop_totalPoints [of uid aid "answers c2" "questions ex2" 0 0 d1] l3
       grade_loop_totalPoints [of uid aid "answers c2" "questions ex2" 0 0 d] a(4) aid2
  have t3: "t3 = t2" by simp
  from grade_loop_tables [of uid aid "answers c2" "questions ex2" 0 0 d1] l3
  have g3: "tbl_exam_attempts g3 = tbl_exam_attempts d1" by simp
  let ?d3 = "g3\<lparr>tbl_exam_attempts :=
              map (\<lambda>r. if at_id r = aid \<and> at_student_id r = uid
                       then r\<lparr>at_completed_at := Some now', at_score := Some s2,
                              at_total_points := Some t2\<rparr>
                       else r)
                  (tbl_exam_attempts g3)\<rparr>"
  from a(1,3,5,6) aid2 f(2) l3 s3 t3
  have "handleSubmitExam now' uid d1 c2 = (Submitted, ?d3)"
    by (simp add: handleSubmitExam_def truthy_str_def complete_attempt_def)
  moreover have "tbl_exam_attempts ?d3 = tbl_exam_attempts d2"
    by (simp add: a(7) aid2 g2 g3 att1)
  ultimately show ?thesis by blast
qed

lemma sample_submit_changed:
  "fst (handleSubmitExam 2000 ''s1'' sample_db sample_client_changed) = Submitted"
  by (simp add: submit_defs sample_defs)

theorem handleSubmitExam_again_overwrites_witness:
  "fst (handleSubmitExam 1000 ''s1'' sample_db sample_client) = Submitted
 \<and> attemptId sample_client_changed = attemptId sample_client
 \<and> fst (handleSubmitExam 2000 ''s1'' sample_db sample_client_changed) = Submitted
 \<and> (\<exists>d3. handleSubmitExam 2000 ''s1''
             (snd (handleSubmitExam 1000 ''s1'' sample_db sample_client)) sample_client_changed =
             (Submitted, d3)
         \<and> tbl_exam_attempts d3 =
           tbl_exam_attempts (snd (handleSubmitExam 2000 ''s1'' sample_db sample_client_changed)))"
proof -
  have first: "handleSubmitExam 1000 ''s1'' sample_db sample_client =
      (Submitted, snd (handleSubmitExam 1000 ''s1'' sample_db sample_client))"
    by (simp add: sample_submit)
  have same: "attemptId sample_client_changed = attemptId sample_client"
    by (simp add: sample_client_changed_def)
  have alone: "handleSubmitExam 2000 ''s1'' sample_db sample_client_changed =
      (Submitted, snd (handleSubmitExam 2000 ''s1'' sample_db sample_client_changed))"
    using sample_submit_changed by (simp add: prod_eq_iff)
  have f1: "fst (handleSubmitExam 1000 ''s1'' sample_db sample_client) = Submitted"
    by (simp add: sample_submit)
  from handleSubmitExam_again_overwrites [OF first same alone] f1 same sample_submit_changed
  show ?thesis by blast
qed

text \<open>
  C3 as stated fails: the example attempt is submitted (score 2 points), then the page
  state with the first answer changed submits the same, completed attempt again. The second
  call is not rejected, and it replaces the score by 0 and the completion time.
\<close>

theorem resubmit_counterexample:
  "fst (handleSubmitExam 1000 ''s1'' sample_db sample_client) = Submitted
 \<and> map (\<lambda>r. (at_completed_at r, at_score r, at_total_points r))
       (tbl_exam_attempts (snd (handleSubmitExam 1000 ''s1'' sample_db sample_client))) =
     [(Some 1000, Some 200, Some 600)]
 \<and> fst (handleSubmitExam 2000 ''s1''
          (snd (handleSubmitExam 1000 ''s1'' sample_db sample_client)) sample_client_changed) =
     Submitted
 \<and> map (\<lambda>r. (at_completed_at r, at_score r, at_total_points r))
       (tbl_exam_attempts
          (snd (handleSubmitExam 2000 ''s1''
                  (snd (handleSubmitExam 1000 ''s1'' sample_db sample_client))
                  sample_client_changed))) =
     [(Some 2000, Some 0, Some 600)]"
  unfolding sample_submit by (simp add: submit_defs sample_defs)

text \<open>
  C7, as the code has it. An unanswered question, one with no value in the page's
  answers and no answer row for the (attempt, question) pair, adds its points to the
  total and nothing to the score, whatever its type; the update of the grading loop
  matches no row, so the store is left as it was and no answer row is created for it.
\<close>

theorem grade_question_unanswered:
  assumes "ans (q_id q) = None"
    and "\<forall>r\<in>set (tbl_answers d). \<not> (an_attempt_id r = aid \<and> an_question_id r = q_id q)"
  shows "grade_question uid aid ans q (s, t, d) = (s, t + q_points q, d)"
proof -
  have "update_answers uid ic pe aid (q_id q) d = d" for ic pe
    using assms(2) by (rule update_answers_no_row)
  with assms(1) show ?thesis
    by (simp add: grade_question_def Let_def split: option.split)
qed

theorem grade_question_unanswered_witness:
  "Map.empty (q_id sample_q1) = (None :: json option)
 \<and> list_all (\<lambda>r. \<not> (an_attempt_id r = ''a1'' \<and> an_question_id r = q_id sample_q1))
      (tbl_answers sample_db_unanswered)
 \<and> grade_question ''s1'' ''a1'' Map.empty sample_q1 (0, 0, sample_db_unanswered) =
     (0, 200, sample_db_unanswered)"
proof -
  have h1: "Map.empty (q_id sample_q1) = (None :: json option)" by simp
  have h2: "\<forall>r\<in>set (tbl_answers sample_db_unanswered).
              \<not> (an_attempt_id r = ''a1'' \<and> an_question_id r = q_id sample_q1)"
    by (simp add: sample_db_unanswered_def)
  from grade_question_unanswered [OF h1 h2, of "''s1''" 0 0] h2
  show ?thesis by (simp add: sample_q1_def list_all_iff)
qed

text \<open>
  C7 as stated fails: the example exam is submitted with nothing answered. The submission
  succeeds, and afterwards the answers table has no row at all: nothing records the
  multiple choice question as incorrect with zero points.
\<close>

theorem unanswered_counterexample:
  "fst (handleSubmitExam 1000 ''s1'' sample_db_unanswered sample_client_unanswered) = Submitted
 \<and> tbl_answers (snd (handleSubmitExam 1000 ''s1'' sample_db_unanswered sample_client_unanswered)) = []
 \<and> \<not> (\<exists>r\<in>set (tbl_answers
            (snd (handleSubmitExam 1000 ''s1'' sample_db_unanswered sample_client_unanswered))).
         an_attempt_id r = ''a1'' \<and> an_question_id r = ''q1''
         \<and> an_is_correct r = Some False \<and> an_points_earned r = Some 0)"
  by (simp add: submit_defs sample_defs)

section \<open>Claims about access codes\<close>

lemma upper_char_hex:
  "ch \<in> set ''0123456789abcdef'' \<Longrightarrow> is_upper_alnum (upper_char ch)"
  by (auto simp: upper_char_def is_upper_alnum_def)

lemma draw_code_format:
  assumes "is_md5_text (md5 (rnd i))"
  shows "length (draw_code md5 rnd i) = 8 \<and> list_all is_upper_alnum (draw_code md5 rnd i)"
proof -
  from assms have len: "length (md5 (rnd i)) = 32"
    and hex: "\<forall>ch\<in>set (md5 (rnd i)). ch \<in> set ''0123456789abcdef''"
    by (simp_all add: is_md5_text_def list_all_iff)
  have "set (take 8 (md5 (rnd i))) \<subseteq> set (md5 (rnd i))" by (rule set_take_subset)
  with hex have "\<forall>ch\<in>set (take 8 (md5 (rnd i))). is_upper_alnum (upper_char ch)"
    using upper_char_hex by blast
  with len show ?thesis
    by (simp add: draw_code_def upper_def substring_def list_all_iff)
qed


lemma generate_access_code_from_result:
  assumes "generate_access_code_from md5 rnd d i = Some code"
  shows "\<exists>j\<ge>i. code = draw_code md5 rnd j \<and> \<not> exists_code d code"
proof (rule generate_access_code_from.raw_induct
    [where P = "\<lambda>md5 rnd d i code. \<exists>j\<ge>i. code = draw_code md5 rnd j \<and> \<not> exists_code d code",
      OF _ assms])
  fix f :: "(string \<Rightarrow> string) \<Rightarrow> (nat \<Rightarrow> string) \<Rightarrow> db \<Rightarrow> nat \<Rightarrow> string option"
  fix md5 rnd d i code
  assume IH: "\<And>md5 rnd d i y. f md5 rnd d i = Some y \<Longrightarrow>
                \<exists>j\<ge>i. y = draw_code md5 rnd j \<and> \<not> exists_code d y"
    and body: "(if exists_code d (draw_code md5 rnd i) then f md5 rnd d (Suc i)
                else Some (draw_code md5 rnd i)) = Some code"
  show "\<exists>j\<ge>i. code = draw_code md5 rnd j \<and> \<not> exists_code d code"
  proof (cases "exists_code d (draw_code md5 rnd i)")
    case True
    with body have "f md5 rnd d (Suc i) = Some code" by simp
    from IH [OF this] obtain j where "Suc i \<le> j" "code = draw_code md5 rnd j"
      "\<not> exists_code d code" by blast
    then show ?thesis by (intro exI [of _ j]) simp
  next
    case False
    with body have "code = draw_code md5 rnd i" by simp
    with False show ?thesis by (intro exI [of _ i]) simp
  qed
qed

lemma generate_access_code_from_first:
  assumes "\<forall>j. i \<le> j \<and> j < n \<longrightarrow> exists_code d (draw_code md5 rnd j)"
    and "\<not> exists_code d (draw_code md5 rnd n)" and "i \<le> n"
  shows "generate_access_code_from md5 rnd d i = Some (draw_code md5 rnd n)"
  using assms
proof (induction "n - i" arbitrary: i)
  case 0
  then have "i = n" by simp
  with 0(3) show ?case by (subst generate_access_code_from.simps) simp
next
  case (Suc k)
  then have lt: "i < n" by simp
  with Suc.prems(1) have "exists_code d (draw_code md5 rnd i)" by simp
  then have "generate_access_code_from md5 rnd d i = generate_access_code_from md5 rnd d (Suc i)"
    by (subst generate_access_code_from.simps) simp
  moreover have "generate_access_code_from md5 rnd d (Suc i) = Some (draw_code md5 rnd n)"
  proof (rule Suc.hyps(1))
    from Suc.hyps(2) show "k = n - Suc i" by simp
    from Suc.prems(1) show "\<forall>j. Suc i \<le> j \<and> j < n \<longrightarrow> exists_code d (draw_code md5 rnd j)" by simp
    from Suc.prems(2) show "\<not> exists_code d (draw_code md5 rnd n)" .
    from lt show "Suc i \<le> n" by simp
  qed
  ultimately show ?case by simp
qed

text \<open>
  C8. Provided \<^verbatim>\<open>md5\<close> returns 32 lower-case hexadecimal digits, every code that
  \<^verbatim>\<open>generate_access_code\<close> returns has exactly 8 characters, each a digit or an upper-case
  letter, and equals the access code of no existing exam. The generator retries on
  collision: when the first \<open>n\<close> draws all collide and the next one does not, the loop
  exits and returns that draw.
\<close>

theorem generate_access_code_unique:
  assumes "\<forall>s. is_md5_text (md5 s)"
  shows "(\<forall>code. generate_access_code md5 rnd d = Some code \<longrightarrow>
            length code = 8 \<and> list_all is_upper_alnum code \<and> \<not> exists_code d code)
       \<and> (\<forall>n. (\<forall>j<n. exists_code d (draw_code md5 rnd j)) \<and> \<not> exists_code d (draw_code md5 rnd n)
            \<longrightarrow> generate_access_code md5 rnd d = Some (draw_code md5 rnd n))"
proof (intro conjI allI impI)
  fix code
  assume "generate_access_code md5 rnd d = Some code"
  then have "generate_access_code_from md5 rnd d 0 = Some code"
    by (simp add: generate_access_code_def)
  from generate_access_code_from_result [OF this]
  obtain j where j: "code = draw_code md5 rnd j" and fresh: "\<not> exists_code d code" by blast
  from assms have "is_md5_text (md5 (rnd j))" by simp
  from draw_code_format [of md5 rnd j] this j
  show "length code = 8" and "list_all is_upper_alnum code" by simp_all
  from fresh show "\<not> exists_code d code" .
next
  fix n
  assume a: "(\<forall>j<n. exists_code d (draw_code md5 rnd j)) \<and> \<not> exists_code d (draw_code md5 rnd n)"
  then have "generate_access_code_from md5 rnd d 0 = Some (draw_code md5 rnd n)"
    by (intro generate_access_code_from_first) simp_all
  then show "generate_access_code md5 rnd d = Some (draw_code md5 rnd n)"
    by (simp add: generate_access_code_def)
qed

lemma sample_md5_format: "is_md5_text (sample_md5 s)"
proof -
  let ?hex = "\<lambda>ch. ch \<in> set ''0123456789abcdef''"
  let ?xs = "filter ?hex s @ replicate 32 (CHR ''0'')"
  have "\<forall>ch\<in>set ?xs. ?hex ch" by auto
  moreover have "set (take 32 ?xs) \<subseteq> set ?xs" by (rule set_take_subset)
  ultimately have "\<forall>ch\<in>set (take 32 ?xs). ?hex ch" by blast
  moreover have "length (take 32 ?xs) = 32" by simp
  ultimately show ?thesis
    unfolding is_md5_text_def sample_md5_def list_all_iff by blast
qed

lemma sample_draws:
  "draw_code sample_md5 sample_rnd 0 = ''ABCD1234''"
  "draw_code sample_md5 sample_rnd (Suc 0) = ''04200000''"
  by code_simp+

theorem generate_access_code_unique_witness:
  "(\<forall>s. is_md5_text (sample_md5 s))
 \<and> exists_code sample_db (draw_code sample_md5 sample_rnd 0)
 \<and> generate_access_code sample_md5 sample_rnd sample_db = Some ''04200000''
 \<and> length ''04200000'' = 8 \<and> list_all is_upper_alnum ''04200000''
 \<and> \<not> exists_code sample_db ''04200000''"
proof -
  have fmt: "\<forall>s. is_md5_text (sample_md5 s)" by (simp add: sample_md5_format)
  have c0: "exists_code sample_db (draw_code sample_md5 sample_rnd 0)"
    and c1: "\<not> exists_code sample_db (draw_code sample_md5 sample_rnd (Suc 0))"
    by (simp_all add: sample_draws exists_code_def sample_db_def sample_exam_def)
  from c0 c1 have "(\<forall>j<Suc 0. exists_code sample_db (draw_code sample_md5 sample_rnd j))
      \<and> \<not> exists_code sample_db (draw_code sample_md5 sample_rnd (Suc 0))"
    by simp
  with generate_access_code_unique [OF fmt, of sample_rnd sample_db]
  have g: "generate_access_code sample_md5 sample_rnd sample_db = Some ''04200000''"
    unfolding sample_draws(2) [symmetric] by blast
  with generate_access_code_unique [OF fmt, of sample_rnd sample_db]
  have "length ''04200000'' = 8 \<and> list_all is_upper_alnum ''04200000''
      \<and> \<not> exists_code sample_db ''04200000''"
    by blast
  with fmt c0 g show ?thesis by blast
qed

section \<open>Properties of loadExam\<close>

lemma length_select_attempts:
  "length (select_attempts d examId uid) = length (attempt_numbers d examId uid)"
  by (simp add: select_attempts_def attempt_numbers_def)

lemma loadExam_found:
  assumes "examId \<noteq> []" and "select_active_exam d examId = Some ex"
  shows "loadExam now new_id (Some examId) (Some uid) d c =
     (if (case e_max_attempts ex of
            None \<Rightarrow> True
          | Some n \<Rightarrow> n \<le> int (length (select_attempts d examId uid)) \<and> n \<noteq> 999)
      then Inl LimitReached
      else
        (case find (\<lambda>attempt. at_completed_at attempt = None) (select_attempts d examId uid) of
           Some incompleteAttempt \<Rightarrow>
             Inr (d,
                  c\<lparr>exam := Some (ex\<lparr>questions := sort_key q_order_index (questions ex)\<rparr>),
                    answers := load_answers d (at_id incompleteAttempt),
                    timeLeft :=
                      (case e_time_limit ex of
                         None \<Rightarrow> timeLeft c
                       | Some limit \<Rightarrow>
                           if limit = 0 then timeLeft c
                           else Some (remaining_time limit (at_started_at incompleteAttempt) now)),
                    attemptId := Some (at_id incompleteAttempt)\<rparr>)
         | None \<Rightarrow>
             (case insert_attempt now new_id examId uid
                     (int (length (select_attempts d examId uid)) + 1) d of
                None \<Rightarrow> Inl LoadFailed
              | Some (newAttempt, d') \<Rightarrow>
                  Inr (d',
                       c\<lparr>exam := Some (ex\<lparr>questions := sort_key q_order_index (questions ex)\<rparr>),
                         timeLeft :=
                           (case e_time_limit ex of
                              None \<Rightarrow> timeLeft c
                            | Some limit \<Rightarrow> if limit = 0 then timeLeft c else Some (limit * 60)),
                         attemptId := Some (at_id newAttempt)\<rparr>))))"
  using assms by (simp add: loadExam_def truthy_str_def Let_def cong: option.case_cong)

lemma loadExam_not_found:
  assumes "select_active_exam d examId = None"
  shows "loadExam now new_id (Some examId) (Some uid) d c \<noteq> Inl LimitReached"
  using assms by (simp add: loadExam_def truthy_str_def Let_def)

lemma insert_attempt_SomeD:
  assumes "insert_attempt now new_id examId uid n d = Some (a, d')"
  shows "a = \<lparr>at_id = new_id, at_exam_id = examId, at_student_id = uid, at_started_at = now,
              at_completed_at = None, at_score = None, at_total_points = None,
              at_attempt_number = n\<rparr>"
    and "d' = d\<lparr>tbl_exam_attempts := tbl_exam_attempts d @ [a]\<rparr>"
    and "\<not> list_ex (\<lambda>a. at_exam_id a = examId \<and> at_student_id a = uid
                          \<and> at_attempt_number a = n) (tbl_exam_attempts d)"
  using assms by (auto simp: insert_attempt_def Let_def split: if_splits)

lemma loadExam_InrD:
  assumes "loadExam now new_id (Some examId) (Some uid) d c = Inr (d', c')"
  obtains (resumed) ex a where
      "select_active_exam d examId = Some ex"
      "\<not> (case e_max_attempts ex of
            None \<Rightarrow> True
          | Some n \<Rightarrow> n \<le> int (length (select_attempts d examId uid)) \<and> n \<noteq> 999)"
      "find (\<lambda>attempt. at_completed_at attempt = None) (select_attempts d examId uid) = Some a"
      "d' = d" "attemptId c' = Some (at_id a)"
    | (created) ex a where
      "select_active_exam d examId = Some ex"
      "\<not> (case e_max_attempts ex of
            None \<Rightarrow> True
          | Some n \<Rightarrow> n \<le> int (length (select_attempts d examId uid)) \<and> n \<noteq> 999)"
      "find (\<lambda>attempt. at_completed_at attempt = None) (select_attempts d examId uid) = None"
      "insert_attempt now new_id examId uid (int (length (select_attempts d examId uid)) + 1) d
         = Some (a, d')"
      "attemptId c' = Some (at_id a)"
proof -
  from assms have ne: "examId \<noteq> []"
    by (cases "examId = []") (simp_all add: loadExam_def truthy_str_def)
  from assms ne obtain ex where ex: "select_active_exam d examId = Some ex"
    by (cases "select_active_exam d examId") (simp_all add: loadExam_def truthy_str_def Let_def)
  note eq = loadExam_found [OF ne ex, of now new_id uid c]
  from assms eq
  have lim: "\<not> (case e_max_attempts ex of
            None \<Rightarrow> True
          | Some n \<Rightarrow> n \<le> int (length (select_attempts d examId uid)) \<and> n \<noteq> 999)"
    by (auto split: if_splits)
  show thesis
  proof (cases "find (\<lambda>attempt. at_completed_at attempt = None) (select_attempts d examId uid)")
    case (Some a)
    with assms eq lim have "d' = d" "attemptId c' = Some (at_id a)" by auto
    with ex lim Some show thesis by (rule resumed)
  next
    case None
    with assms eq lim obtain a where
      ins: "insert_attempt now new_id examId uid (int (length (select_attempts d examId uid)) + 1) d
         = Some (a, d')" and "attemptId c' = Some (at_id a)"
      by (cases "insert_attempt now new_id examId uid
                   (int (length (select_attempts d examId uid)) + 1) d") auto
    with ex lim None show thesis by (rule created)
  qed
qed

lemma set_select_attempts:
  "set (select_attempts d examId uid) =
     {a \<in> set (tbl_exam_attempts d). at_exam_id a = examId \<and> at_student_id a = uid}"
  by (simp add: select_attempts_def)

lemma select_active_exam_cong:
  "tbl_exams d' = tbl_exams d \<Longrightarrow> tbl_questions d' = tbl_questions d \<Longrightarrow>
   select_active_exam d' examId = select_active_exam d examId"
  by (simp add: select_active_exam_def cong: list.case_cong)

lemma saveAnswer_tables:
  "tbl_profiles (saveAnswer merge uid c qid v d) = tbl_profiles d \<and>
   tbl_exams (saveAnswer merge uid c qid v d) = tbl_exams d \<and>
   tbl_questions (saveAnswer merge uid c qid v d) = tbl_questions d \<and>
   tbl_exam_attempts (saveAnswer merge uid c qid v d) = tbl_exam_attempts d"
  by (simp add: saveAnswer_def upsert_answer_def split: option.split)

lemma answer_changes_frame:
  "tbl_exams (fst (answer_changes uid ops (d, c))) = tbl_exams d \<and>
   tbl_questions (fst (answer_changes uid ops (d, c))) = tbl_questions d \<and>
   tbl_exam_attempts (fst (answer_changes uid ops (d, c))) = tbl_exam_attempts d \<and>
   attemptId (snd (answer_changes uid ops (d, c))) = attemptId c \<and>
   exam (snd (answer_changes uid ops (d, c))) = exam c"
proof (induction ops arbitrary: d c)
  case Nil
  show ?case by simp
next
  case (Cons op ops)
  obtain merge qid v where op: "op = (merge, qid, v)" by (cases op) auto
  from Cons.IH [of "saveAnswer merge uid c qid v d" "c\<lparr>answers := (answers c)(qid \<mapsto> v)\<rparr>"]
    saveAnswer_tables [of merge uid c qid v d] op
  show ?case by (simp add: handleAnswerChange_def)
qed

lemma handleSubmitExam_Submitted_tables:
  assumes "handleSubmitExam now uid d c = (Submitted, d')"
  obtains aid where "attemptId c = Some aid"
    "tbl_exams d' = tbl_exams d" "tbl_questions d' = tbl_questions d"
    "tbl_exam_attempts d' =
       map (\<lambda>r. if at_id r = aid \<and> at_student_id r = uid
                then r\<lparr>at_completed_at := Some now,
                       at_score := Some (fst (grade_loop uid aid (answers c)
                                               (questions (the (exam c))) (0, 0, d))),
                       at_total_points := Some (fst (snd (grade_loop uid aid (answers c)
                                               (questions (the (exam c))) (0, 0, d))))\<rparr>
                else r)
           (tbl_exam_attempts d)"
proof -
  from assms obtain aid ex s t g where
    f: "attemptId c = Some aid" "aid \<noteq> []" "exam c = Some ex"
      "grade_loop uid aid (answers c) (questions ex) (0, 0, d) = (s, t, g)"
      "fits_decimal s" "fits_decimal t"
      "d' = g\<lparr>tbl_exam_attempts :=
              map (\<lambda>r. if at_id r = aid \<and> at_student_id r = uid
                       then r\<lparr>at_completed_at := Some now, at_score := Some s,
                              at_total_points := Some t\<rparr>
                       else r)
                  (tbl_exam_attempts g)\<rparr>"
    by (rule handleSubmitExam_SubmittedD)
  from grade_loop_tables [of uid aid "answers c" "questions ex" 0 0 d] f(4)
  have g: "tbl_exams g = tbl_exams d" "tbl_questions g = tbl_questions d"
    "tbl_exam_attempts g = tbl_exam_attempts d"
    by simp_all
  show thesis
  proof (rule that [of aid])
    show "attemptId c = Some aid" by (rule f(1))
    show "tbl_exams d' = tbl_exams d" "tbl_questions d' = tbl_questions d"
      using f(7) g by simp_all
    show "tbl_exam_attempts d' =
       map (\<lambda>r. if at_id r = aid \<and> at_student_id r = uid
                then r\<lparr>at_completed_at := Some now,
                       at_score := Some (fst (grade_loop uid aid (answers c)
                                               (questions (the (exam c))) (0, 0, d))),
                       at_total_points := Some (fst (snd (grade_loop uid aid (answers c)
                                               (questions (the (exam c))) (0, 0, d))))\<rparr>
                else r)
           (tbl_exam_attempts d)"
      using f(3,4,7) g by simp
  qed
qed


lemma attempt_numbers_map:
  assumes "\<And>r. at_exam_id (f r) = at_exam_id r" "\<And>r. at_student_id (f r) = at_student_id r"
    "\<And>r. at_attempt_number (f r) = at_attempt_number r"
  shows "map at_attempt_number
           (filter (\<lambda>a. at_exam_id a = e \<and> at_student_id a = u) (map f xs)) =
         map at_attempt_number (filter (\<lambda>a. at_exam_id a = e \<and> at_student_id a = u) xs)"
  by (induction xs) (simp_all add: assms)

lemma attempt_rounds_SucD:
  assumes "attempt_rounds clock ids ops examId uid (Suc k) d = Some d3"
  obtains d1 l1 c1 d2 c2 where
    "attempt_rounds clock ids ops examId uid k d = Some d1"
    "loadExam (clock k) (ids k) (Some examId) (Some uid) d1 initial_client = Inr (l1, c1)"
    "answer_changes uid (ops k) (l1, c1) = (d2, c2)"
    "handleSubmitExam (clock k) uid d2 c2 = (Submitted, d3)"
proof -
  from assms obtain d1 where d1: "attempt_rounds clock ids ops examId uid k d = Some d1"
    by (cases "attempt_rounds clock ids ops examId uid k d") simp_all
  from assms d1 obtain l1 c1 where
    l: "loadExam (clock k) (ids k) (Some examId) (Some uid) d1 initial_client = Inr (l1, c1)"
    by (cases "loadExam (clock k) (ids k) (Some examId) (Some uid) d1 initial_client") auto
  obtain d2 c2 where a: "answer_changes uid (ops k) (l1, c1) = (d2, c2)"
    by (cases "answer_changes uid (ops k) (l1, c1)") auto
  obtain out d3' where h: "handleSubmitExam (clock k) uid d2 c2 = (out, d3')"
    by (cases "handleSubmitExam (clock k) uid d2 c2") auto
  from assms d1 l a h have "out = Submitted \<and> d3' = d3"
    by (cases out) simp_all
  with h have "handleSubmitExam (clock k) uid d2 c2 = (Submitted, d3)" by simp
  with d1 l a show thesis by (rule that)
qed

lemma attempt_rounds_inv:
  assumes "attempt_rounds clock ids ops examId uid k d = Some dk"
    and "attempt_numbers d examId uid = []"
  shows "tbl_exams dk = tbl_exams d \<and> tbl_questions dk = tbl_questions d
       \<and> length (attempt_numbers dk examId uid) = k
       \<and> (\<forall>a\<in>set (tbl_exam_attempts dk).
             at_exam_id a = examId \<and> at_student_id a = uid \<longrightarrow> at_completed_at a \<noteq> None)"
  using assms(1)
proof (induction k arbitrary: dk)
  case 0
  with assms(2) show ?case by (auto simp: attempt_numbers_def filter_empty_conv)
next
  case (Suc k)
  from Suc.prems obtain d1 l1 c1 d2 c2 where
    r: "attempt_rounds clock ids ops examId uid k d = Some d1"
    and l: "loadExam (clock k) (ids k) (Some examId) (Some uid) d1 initial_client = Inr (l1, c1)"
    and a: "answer_changes uid (ops k) (l1, c1) = (d2, c2)"
    and h: "handleSubmitExam (clock k) uid d2 c2 = (Submitted, dk)"
    by (rule attempt_rounds_SucD)
  from Suc.IH [OF r]
  have ih: "tbl_exams d1 = tbl_exams d" "tbl_questions d1 = tbl_questions d"
    "length (attempt_numbers d1 examId uid) = k"
    "\<forall>a\<in>set (tbl_exam_attempts d1).
        at_exam_id a = examId \<and> at_student_id a = uid \<longrightarrow> at_completed_at a \<noteq> None"
    by simp_all
  from l obtain new where
    ins: "insert_attempt (clock k) (ids k) examId uid
            (int (length (select_attempts d1 examId uid)) + 1) d1 = Some (new, l1)"
    and cid: "attemptId c1 = Some (at_id new)"
  proof (cases rule: loadExam_InrD)
    case (resumed ex a)
    from resumed(3) have "a \<in> set (select_attempts d1 examId uid)" "at_completed_at a = None"
      by (auto simp: find_Some_iff)
    with ih(4) have False by (auto simp: set_select_attempts)
    then show ?thesis ..
  next
    case (created ex a)
    then show ?thesis using that by blast
  qed
  note insD = insert_attempt_SomeD [OF ins]
  from insD(1) have new: "at_id new = ids k" "at_exam_id new = examId" "at_student_id new = uid"
    "at_completed_at new = None"
    by simp_all
  from insD(2) have l1: "tbl_exams l1 = tbl_exams d1" "tbl_questions l1 = tbl_questions d1"
    "tbl_exam_attempts l1 = tbl_exam_attempts d1 @ [new]"
    by simp_all
  from answer_changes_frame [of uid "ops k" l1 c1] a
  have d2: "tbl_exams d2 = tbl_exams l1" "tbl_questions d2 = tbl_questions l1"
    "tbl_exam_attempts d2 = tbl_exam_attempts l1" "attemptId c2 = attemptId c1"
    by simp_all
  from h obtain aid s t where
    sub: "attemptId c2 = Some aid" "tbl_exams dk = tbl_exams d2" "tbl_questions dk = tbl_questions d2"
      "tbl_exam_attempts dk =
         map (\<lambda>r. if at_id r = aid \<and> at_student_id r = uid
                  then r\<lparr>at_completed_at := Some (clock k), at_score := Some s,
                         at_total_points := Some t\<rparr>
                  else r)
             (tbl_exam_attempts d2)"
    by (rule handleSubmitExam_Submitted_tables) blast
  from sub(1) d2(4) cid new(1) have aid: "aid = ids k" by simp
  define f :: "attempt_row \<Rightarrow> attempt_row" where "f = (\<lambda>r. if at_id r = ids k \<and> at_student_id r = uid
                  then r\<lparr>at_completed_at := Some (clock k), at_score := Some s,
                         at_total_points := Some t\<rparr>
                  else r)"
  from sub(4) aid d2(3) l1(3)
  have rows: "tbl_exam_attempts dk = map f (tbl_exam_attempts d1 @ [new])"
    by (simp add: f_def)
  have keep: "at_exam_id (f r) = at_exam_id r" "at_student_id (f r) = at_student_id r"
    "at_attempt_number (f r) = at_attempt_number r" for r
    by (simp_all add: f_def)
  have compl: "at_completed_at (f r) \<noteq> None" if "at_completed_at r \<noteq> None" for r
    using that by (simp add: f_def)
  have fnew: "at_completed_at (f new) \<noteq> None" using new by (simp add: f_def)
  have "attempt_numbers dk examId uid =
          map at_attempt_number
            (filter (\<lambda>a. at_exam_id a = examId \<and> at_student_id a = uid)
               (map f (tbl_exam_attempts d1 @ [new])))"
    unfolding attempt_numbers_def rows ..
  also have "\<dots> = map at_attempt_number
            (filter (\<lambda>a. at_exam_id a = examId \<and> at_student_id a = uid)
               (tbl_exam_attempts d1 @ [new]))"
    by (rule attempt_numbers_map) (rule keep)+
  also have "\<dots> = attempt_numbers d1 examId uid @ [at_attempt_number new]"
    using new(2,3) by (simp add: attempt_numbers_def)
  finally have nums: "attempt_numbers dk examId uid =
                attempt_numbers d1 examId uid @ [at_attempt_number new]" .
  have all: "\<forall>a\<in>set (tbl_exam_attempts dk).
        at_exam_id a = examId \<and> at_student_id a = uid \<longrightarrow> at_completed_at a \<noteq> None"
  proof (intro ballI impI)
    fix a
    assume "a \<in> set (tbl_exam_attempts dk)"
      and pair: "at_exam_id a = examId \<and> at_student_id a = uid"
    then obtain r where r: "r \<in> set (tbl_exam_attempts d1) \<or> r = new" and a: "a = f r"
      unfolding rows by auto
    from pair a keep have rp: "at_exam_id r = examId \<and> at_student_id r = uid" by simp
    from r show "at_completed_at a \<noteq> None"
    proof
      assume "r \<in> set (tbl_exam_attempts d1)"
      with ih(4) rp have "at_completed_at r \<noteq> None" by blast
      then show ?thesis unfolding a by (rule compl)
    next
      assume "r = new"
      with fnew a show ?thesis by simp
    qed
  qed
  from nums ih(3) have cnt: "length (attempt_numbers dk examId uid) = Suc k" by simp
  from sub(2) d2(1) l1(1) ih(1) have e: "tbl_exams dk = tbl_exams d" by simp
  from sub(3) d2(2) l1(2) ih(2) have q: "tbl_questions dk = tbl_questions d" by simp
  from e q cnt all show ?case by blast
qed

lemma attempt_rounds_exhaust:
  assumes "examId \<noteq> []" and "select_active_exam d examId = Some ex"
    and "attempt_numbers d examId uid = []"
    and "e_max_attempts ex = Some (int n)" and "int n \<noteq> 999"
    and "attempt_rounds clock ids ops examId uid n d = Some dn"
  shows "loadExam now new_id (Some examId) (Some uid) dn c = Inl LimitReached"
proof -
  from attempt_rounds_inv [OF assms(6,3)]
  have inv: "tbl_exams dn = tbl_exams d" "tbl_questions dn = tbl_questions d"
    "length (attempt_numbers dn examId uid) = n"
    by simp_all
  from select_active_exam_cong [OF inv(1,2)] assms(2)
  have "select_active_exam dn examId = Some ex" by simp
  from loadExam_found [OF assms(1) this] assms(4,5) inv(3)
  show ?thesis by (simp add: length_select_attempts)
qed

section \<open>Claims about starting and resuming attempts\<close>

lemma insert_attempt_numbers:
  assumes "insert_attempt now new_id examId uid n d = Some (a, d')"
  shows "attempt_numbers d' e u =
           (if e = examId \<and> u = uid then attempt_numbers d e u @ [n] else attempt_numbers d e u)"
proof -
  note ins = insert_attempt_SomeD [OF assms]
  from ins(1) have a: "at_exam_id a = examId" "at_student_id a = uid" "at_attempt_number a = n"
    by simp_all
  from ins(2) have "tbl_exam_attempts d' = tbl_exam_attempts d @ [a]" by simp
  with a show ?thesis by (auto simp: attempt_numbers_def)
qed

text \<open>
  C5. For an active exam with \<open>max_attempts = N\<close>, \<open>N\<close> not the sentinel 999: a student
  who already has \<open>N\<close> attempts (or more) for the exam is rejected with LimitReached; a
  call that is let through leaves the student with at most \<open>N\<close> attempts, so attempt
  number \<open>N + 1\<close> is never started; and for a student who had no attempt and has taken
  the exam \<open>N\<close> times (each time loading it, answering and submitting), call
  \<open>N + 1\<close> is rejected with LimitReached. When \<open>max_attempts\<close> is 999 the call is never
  rejected with LimitReached.
\<close>

theorem loadExam_limit:
  assumes "examId \<noteq> []" and "select_active_exam d examId = Some ex"
  shows "(e_max_attempts ex = Some N \<and> N \<noteq> 999
            \<and> N \<le> int (length (attempt_numbers d examId uid))
          \<longrightarrow> loadExam now new_id (Some examId) (Some uid) d c = Inl LimitReached)
       \<and> (e_max_attempts ex = Some N \<and> N \<noteq> 999
            \<and> loadExam now new_id (Some examId) (Some uid) d c = Inr (d', c')
          \<longrightarrow> int (length (attempt_numbers d' examId uid)) \<le> N)
       \<and> (attempt_numbers d examId uid = [] \<and> e_max_attempts ex = Some (int n) \<and> int n \<noteq> 999
            \<and> attempt_rounds clock ids ops examId uid n d = Some dn
          \<longrightarrow> loadExam now' new_id' (Some examId) (Some uid) dn c'' = Inl LimitReached)
       \<and> (e_max_attempts ex = Some 999
          \<longrightarrow> loadExam now new_id (Some examId) (Some uid) d c \<noteq> Inl LimitReached)"
proof (intro conjI impI)
  assume "attempt_numbers d examId uid = [] \<and> e_max_attempts ex = Some (int n) \<and> int n \<noteq> 999
            \<and> attempt_rounds clock ids ops examId uid n d = Some dn"
  with assms show "loadExam now' new_id' (Some examId) (Some uid) dn c'' = Inl LimitReached"
    by (intro attempt_rounds_exhaust [where d = d and ex = ex and n = n and clock = clock
          and ids = ids and ops = ops]) simp_all
next
  assume "e_max_attempts ex = Some N \<and> N \<noteq> 999
            \<and> N \<le> int (length (attempt_numbers d examId uid))"
  then show "loadExam now new_id (Some examId) (Some uid) d c = Inl LimitReached"
    by (simp add: loadExam_found [OF assms] length_select_attempts)
next
  assume "e_max_attempts ex = Some 999"
  then show "loadExam now new_id (Some examId) (Some uid) d c \<noteq> Inl LimitReached"
    by (simp add: loadExam_found [OF assms] split: option.split)
next
  assume a: "e_max_attempts ex = Some N \<and> N \<noteq> 999
            \<and> loadExam now new_id (Some examId) (Some uid) d c = Inr (d', c')"
  then have "loadExam now new_id (Some examId) (Some uid) d c = Inr (d', c')" by simp
  then show "int (length (attempt_numbers d' examId uid)) \<le> N"
  proof (cases rule: loadExam_InrD)
    case (resumed ex' a')
    with assms(2) a show ?thesis by (simp add: length_select_attempts)
  next
    case (created ex' a')
    from insert_attempt_numbers [OF created(4), of examId uid]
    have "length (attempt_numbers d' examId uid) = length (attempt_numbers d examId uid) + 1"
      by simp
    with created(1,2) assms(2) a show ?thesis by (simp add: length_select_attempts)
  qed
qed

lemma sample_active:
  "select_active_exam sample_db ''e1'' =
     Some (with_questions sample_exam [sample_q1, sample_q2, sample_q3])"
  "select_active_exam sample_db_fresh ''e1'' =
     Some (with_questions sample_exam [sample_q1, sample_q2, sample_q3])"
  "select_active_exam sample_db_unlimited ''e1'' =
     Some (with_questions (sample_exam\<lparr>e_max_attempts := Some 999\<rparr>) [sample_q1, sample_q2, sample_q3])"
  by (simp_all add: select_active_exam_def sample_defs)

lemmas load_defs = loadExam_def truthy_str_def select_active_exam_def select_attempts_def
  insert_attempt_def load_answers_def remaining_time_def Let_def

lemma sample_load_fresh:
  "loadExam 5000 ''a1'' (Some ''e1'') (Some ''s1'') sample_db_fresh initial_client =
     Inr (sample_db_fresh\<lparr>tbl_exam_attempts := [sample_attempt\<lparr>at_started_at := 5000\<rparr>]\<rparr>,
          initial_client\<lparr>exam := Some (with_questions sample_exam [sample_q1, sample_q2, sample_q3]),
                         timeLeft := Some 1800, attemptId := Some ''a1''\<rparr>)"
  by (simp add: load_defs sample_defs)

lemma sample_round:
  "attempt_rounds (\<lambda>j. 5000) (\<lambda>j. ''a1'') (\<lambda>j. [(True, ''q1'', JNum 1)]) ''e1'' ''s1''
     (Suc 0) sample_db_fresh =
   Some (sample_db_fresh\<lparr>tbl_exam_attempts :=
           [sample_attempt\<lparr>at_started_at := 5000, at_completed_at := Some 5000,
                          at_score := Some 200, at_total_points := Some 600\<rparr>],
         tbl_answers :=
           [\<lparr>an_attempt_id = ''a1'', an_question_id = ''q1'', an_answer_value = JNum 1,
             an_is_correct = Some True, an_points_earned = Some 200\<rparr>]\<rparr>)"
  by (simp add: sample_load_fresh) (simp add: save_defs submit_defs sample_defs)

theorem loadExam_limit_witness:
  "loadExam 5000 ''a2'' (Some ''e1'') (Some ''s1'') sample_db initial_client = Inl LimitReached
 \<and> (\<exists>dn. attempt_rounds (\<lambda>j. 5000) (\<lambda>j. ''a1'') (\<lambda>j. [(True, ''q1'', JNum 1)]) ''e1'' ''s1''
             (Suc 0) sample_db_fresh = Some dn
          \<and> loadExam 9000 ''a2'' (Some ''e1'') (Some ''s1'') dn initial_client = Inl LimitReached)
 \<and> (\<exists>d' c'. loadExam 5000 ''a1'' (Some ''e1'') (Some ''s1'') sample_db_fresh initial_client
               = Inr (d', c')
            \<and> int (length (attempt_numbers d' ''e1'' ''s1'')) \<le> 1)
 \<and> loadExam 5000 ''a2'' (Some ''e1'') (Some ''s1'') sample_db_unlimited initial_client
     \<noteq> Inl LimitReached"
proof -
  have ne: "''e1'' \<noteq> []" by simp
  have n1: "e_max_attempts (with_questions sample_exam [sample_q1, sample_q2, sample_q3]) = Some 1"
    and n999: "e_max_attempts (with_questions (sample_exam\<lparr>e_max_attempts := Some 999\<rparr>)
                 [sample_q1, sample_q2, sample_q3]) = Some 999"
    by (simp_all add: sample_defs)
  have cnt: "attempt_numbers sample_db ''e1'' ''s1'' = [1]"
    by (simp add: attempt_numbers_def sample_defs)
  from loadExam_limit [OF ne sample_active(1), where N = 1 and uid = "''s1''" and now = 5000
      and new_id = "''a2''" and c = initial_client]
  have r1: "loadExam 5000 ''a2'' (Some ''e1'') (Some ''s1'') sample_db initial_client
              = Inl LimitReached"
    by (simp add: n1 cnt)
  obtain d' c' where ok:
    "loadExam 5000 ''a1'' (Some ''e1'') (Some ''s1'') sample_db_fresh initial_client = Inr (d', c')"
    using sample_load_fresh by blast
  from loadExam_limit [OF ne sample_active(2), where N = 1 and uid = "''s1''" and now = 5000
      and new_id = "''a1''" and c = initial_client and d' = d' and c' = c'] ok
  have r2: "int (length (attempt_numbers d' ''e1'' ''s1'')) \<le> 1"
    by (simp add: n1)
  from loadExam_limit [OF ne sample_active(3), where uid = "''s1''" and now = 5000
      and new_id = "''a2''" and c = initial_client]
  have r3: "loadExam 5000 ''a2'' (Some ''e1'') (Some ''s1'') sample_db_unlimited initial_client
     \<noteq> Inl LimitReached"
    by (simp add: n999)
  have c0: "attempt_numbers sample_db_fresh ''e1'' ''s1'' = []"
    by (simp add: attempt_numbers_def sample_defs)
  from loadExam_limit [OF ne sample_active(2), where uid = "''s1''" and n = "Suc 0"
      and clock = "\<lambda>j. 5000" and ids = "\<lambda>j. ''a1''" and ops = "\<lambda>j. [(True, ''q1'', JNum 1)]"
      and now' = 9000 and new_id' = "''a2''" and c'' = initial_client] c0 n1 sample_round
  have r4: "\<exists>dn. attempt_rounds (\<lambda>j. 5000) (\<lambda>j. ''a1'') (\<lambda>j. [(True, ''q1'', JNum 1)]) ''e1'' ''s1''
             (Suc 0) sample_db_fresh = Some dn
          \<and> loadExam 9000 ''a2'' (Some ''e1'') (Some ''s1'') dn initial_client = Inl LimitReached"
    by simp
  from r1 ok r2 r3 r4 show ?thesis by blast
qed

text \<open>
  C6. Whenever \<^verbatim>\<open>loadExam\<close> creates an attempt (the attempts table changes), exactly one
  row is appended, for this exam and student, and its \<open>attempt_number\<close> is the count of
  the pair's prior attempts plus 1. Every successful call keeps the attempt numbers of
  every (exam, student) pair sequential (distinct, and exactly 1 up to their count, so
  without gaps), and keeps the triples (exam, student, attempt number) unique.
\<close>

theorem loadExam_attempt_number:
  assumes "loadExam now new_id (Some examId) (Some uid) d c = Inr (d', c')"
  shows "(tbl_exam_attempts d' \<noteq> tbl_exam_attempts d
          \<longrightarrow> (\<exists>a. tbl_exam_attempts d' = tbl_exam_attempts d @ [a]
                   \<and> at_exam_id a = examId \<and> at_student_id a = uid
                   \<and> at_attempt_number a = int (length (attempt_numbers d examId uid)) + 1
                   \<and> attemptId c' = Some (at_id a)))
       \<and> (\<forall>e u. sequential d e u \<longrightarrow> sequential d' e u)
       \<and> (unique_triples d \<longrightarrow> unique_triples d')"
  using assms
proof (cases rule: loadExam_InrD)
  case (resumed ex a)
  then show ?thesis by simp
next
  case (created ex a)
  let ?n = "int (length (attempt_numbers d examId uid)) + 1"
  from created(4) have ins: "insert_attempt now new_id examId uid ?n d = Some (a, d')"
    by (simp add: length_select_attempts)
  note insD = insert_attempt_SomeD [OF ins]
  from insD(1) have a: "at_exam_id a = examId" "at_student_id a = uid" "at_attempt_number a = ?n"
    by simp_all
  from insD(2) have app: "tbl_exam_attempts d' = tbl_exam_attempts d @ [a]" by simp
  have seq: "sequential d' e u" if "sequential d e u" for e u
  proof (cases "e = examId \<and> u = uid")
    case True
    let ?xs = "attempt_numbers d examId uid"
    from that True have xs: "distinct ?xs" "set ?xs = {1 .. int (length ?xs)}"
      by (simp_all add: sequential_def)
    from insert_attempt_numbers [OF ins, of examId uid]
    have ys: "attempt_numbers d' examId uid = ?xs @ [?n]" by simp
    from xs have "distinct (?xs @ [?n])" by simp
    moreover from xs(2) have "set (?xs @ [?n]) = {1 .. int (length (?xs @ [?n]))}" by auto
    ultimately show ?thesis using True ys by (simp add: sequential_def)
  next
    case False
    with insert_attempt_numbers [OF ins, of e u]
    have "attempt_numbers d' e u = attempt_numbers d e u" by auto
    with that show ?thesis by (simp add: sequential_def)
  qed
  have uniq: "unique_triples d'" if "unique_triples d"
  proof -
    from insD(3) a
    have "(at_exam_id a, at_student_id a, at_attempt_number a)
            \<notin> set (map (\<lambda>a. (at_exam_id a, at_student_id a, at_attempt_number a))
                     (tbl_exam_attempts d))"
      by (auto simp: list_ex_iff)
    with that app show ?thesis by (simp add: unique_triples_def)
  qed
  from app a created(5) seq uniq show ?thesis by blast
qed

theorem loadExam_attempt_number_witness:
  "sequential sample_db_fresh ''e1'' ''s1'' \<and> unique_triples sample_db_fresh
 \<and> (\<exists>d' c'. loadExam 5000 ''a1'' (Some ''e1'') (Some ''s1'') sample_db_fresh initial_client
               = Inr (d', c')
            \<and> map (\<lambda>a. (at_id a, at_exam_id a, at_student_id a, at_attempt_number a))
                  (tbl_exam_attempts d') = [(''a1'', ''e1'', ''s1'', 1)]
            \<and> attemptId c' = Some ''a1''
            \<and> sequential d' ''e1'' ''s1'' \<and> unique_triples d')"
proof -
  have ne: "''e1'' \<noteq> []" by simp
  have n1: "e_max_attempts (with_questions sample_exam [sample_q1, sample_q2, sample_q3]) = Some 1"
    by (simp add: sample_defs)
  have s0: "sequential sample_db_fresh ''e1'' ''s1''" and u0: "unique_triples sample_db_fresh"
    and t0: "tbl_exam_attempts sample_db_fresh = []"
    and c0: "attempt_numbers sample_db_fresh ''e1'' ''s1'' = []"
    by (simp_all add: sequential_def unique_triples_def attempt_numbers_def sample_defs)
  obtain d' c' where ok:
    "loadExam 5000 ''a1'' (Some ''e1'') (Some ''s1'') sample_db_fresh initial_client = Inr (d', c')"
    and d': "d' = sample_db_fresh\<lparr>tbl_exam_attempts := [sample_attempt\<lparr>at_started_at := 5000\<rparr>]\<rparr>"
    using sample_load_fresh by blast
  have rows: "map (\<lambda>a. (at_id a, at_exam_id a, at_student_id a, at_attempt_number a))
                  (tbl_exam_attempts d') = [(''a1'', ''e1'', ''s1'', 1)]"
    by (simp add: d' sample_attempt_def)
  then have "tbl_exam_attempts d' \<noteq> tbl_exam_attempts sample_db_fresh" by (auto simp: t0)
  with loadExam_attempt_number [OF ok] s0 u0
  have fin: "attemptId c' = Some ''a1''" "sequential d' ''e1'' ''s1''" "unique_triples d'"
    using rows by (auto simp: t0)
  from s0 u0 ok rows fin show ?thesis
    by (intro conjI exI [of _ d'] exI [of _ c']) simp_all
qed

text \<open>
  C4 at its failing input. The example exam allows one attempt, the default. A student with
  no attempt loads it, which creates attempt \<open>a1\<close>; nothing is submitted, so \<open>a1\<close> stays
  incomplete; the student loads the exam again. \<^verbatim>\<open>loadExam\<close> counts \<open>a1\<close> against the limit
  before it reaches its own branch for an incomplete attempt, so the second call is
  rejected with LimitReached instead of returning \<open>a1\<close>. The same happens on the example
  store, where the attempt in progress already has saved answers.
\<close>

theorem loadExam_limit_before_resume:
  "(\<exists>d1 c1. loadExam 5000 ''a1'' (Some ''e1'') (Some ''s1'') sample_db_fresh initial_client
               = Inr (d1, c1)
            \<and> attemptId c1 = Some ''a1''
            \<and> map (\<lambda>a. (at_id a, at_attempt_number a, at_completed_at a)) (tbl_exam_attempts d1)
                = [(''a1'', 1, None)]
            \<and> map at_id (filter (\<lambda>a. at_completed_at a = None) (select_attempts d1 ''e1'' ''s1''))
                = [''a1'']
            \<and> loadExam 6000 ''a2'' (Some ''e1'') (Some ''s1'') d1 initial_client
                = Inl LimitReached)
 \<and> map at_id (filter (\<lambda>a. at_completed_at a = None) (select_attempts sample_db ''e1'' ''s1''))
     = [''a1'']
 \<and> loadExam 6000 ''a2'' (Some ''e1'') (Some ''s1'') sample_db initial_client = Inl LimitReached"
proof -
  let ?d1 = "sample_db_fresh\<lparr>tbl_exam_attempts := [sample_attempt\<lparr>at_started_at := 5000\<rparr>]\<rparr>"
  let ?c1 = "initial_client\<lparr>exam := Some (with_questions sample_exam [sample_q1, sample_q2, sample_q3]),
                         timeLeft := Some 1800, attemptId := Some ''a1''\<rparr>"
  have "attemptId ?c1 = Some ''a1''" by simp
  moreover have "map (\<lambda>a. (at_id a, at_attempt_number a, at_completed_at a)) (tbl_exam_attempts ?d1)
                = [(''a1'', 1, None)]"
    by (simp add: sample_attempt_def)
  moreover have "map at_id (filter (\<lambda>a. at_completed_at a = None) (select_attempts ?d1 ''e1'' ''s1''))
                = [''a1'']"
    by (simp add: select_attempts_def sample_defs)
  moreover have "loadExam 6000 ''a2'' (Some ''e1'') (Some ''s1'') ?d1 initial_client
                = Inl LimitReached"
    by (simp add: load_defs sample_defs)
  ultimately have first: "\<exists>d1 c1. loadExam 5000 ''a1'' (Some ''e1'') (Some ''s1'') sample_db_fresh initial_client
               = Inr (d1, c1)
            \<and> attemptId c1 = Some ''a1''
            \<and> map (\<lambda>a. (at_id a, at_attempt_number a, at_completed_at a)) (tbl_exam_attempts d1)
                = [(''a1'', 1, None)]
            \<and> map at_id (filter (\<lambda>a. at_completed_at a = None) (select_attempts d1 ''e1'' ''s1''))
                = [''a1'']
            \<and> loadExam 6000 ''a2'' (Some ''e1'') (Some ''s1'') d1 initial_client
                = Inl LimitReached"
    using sample_load_fresh by (intro exI [of _ ?d1] exI [of _ ?c1] conjI)
  have second: "map at_id (filter (\<lambda>a. at_completed_at a = None) (select_attempts sample_db ''e1'' ''s1''))
     = [''a1'']
   \<and> loadExam 6000 ''a2'' (Some ''e1'') (Some ''s1'') sample_db initial_client = Inl LimitReached"
    by (simp add: load_defs sample_defs)
  from first second show ?thesis by (rule conjI)
qed

theorem loadExam_limit_before_resume_witness:
  "\<not> (\<exists>d' c'. loadExam 6000 ''a2'' (Some ''e1'') (Some ''s1'') sample_db initial_client
                  = Inr (d', c'))"
  using loadExam_limit_before_resume by simp

section \<open>Claims about saved answers\<close>

lemma upsert_answer_rows:
  assumes "upsert_answer merge uid a qid v d = Some d'"
  shows "tbl_answers d' =
           (if list_ex (\<lambda>r. an_attempt_id r = a \<and> an_question_id r = qid) (tbl_answers d)
            then map (\<lambda>r. if an_attempt_id r = a \<and> an_question_id r = qid
                          then r\<lparr>an_answer_value := v\<rparr> else r) (tbl_answers d)
            else tbl_answers d @
                   [\<lparr>an_attempt_id = a, an_question_id = qid, an_answer_value = v,
                     an_is_correct = None, an_points_earned = Some 0\<rparr>])"
proof (cases "list_ex (\<lambda>r. an_attempt_id r = a \<and> an_question_id r = qid) (tbl_answers d)")
  case True
  with assms have "d' = d\<lparr>tbl_answers :=
                          map (\<lambda>r. if an_attempt_id r = a \<and> an_question_id r = qid
                                   then r\<lparr>an_answer_value := v\<rparr> else r)
                              (tbl_answers d)\<rparr>"
    by (simp add: upsert_answer_def split: if_splits)
  with True show ?thesis by simp
next
  case False
  with assms have "d' = d\<lparr>tbl_answers := tbl_answers d @
                      [\<lparr>an_attempt_id = a, an_question_id = qid, an_answer_value = v,
                        an_is_correct = None, an_points_earned = Some 0\<rparr>]\<rparr>"
    by (simp add: upsert_answer_def split: if_splits)
  with False show ?thesis by simp
qed

lemma upsert_answer_ungraded:
  assumes "upsert_answer merge uid a qid v d = Some d'"
    and inv: "\<forall>r\<in>set (tbl_answers d). an_attempt_id r = aid \<longrightarrow> ungraded r"
  shows "\<forall>r\<in>set (tbl_answers d'). an_attempt_id r = aid \<longrightarrow> ungraded r"
proof (intro ballI impI)
  fix r
  assume r: "r \<in> set (tbl_answers d')" and at: "an_attempt_id r = aid"
  note rows = upsert_answer_rows [OF assms(1)]
  show "ungraded r"
  proof (cases "list_ex (\<lambda>r. an_attempt_id r = a \<and> an_question_id r = qid) (tbl_answers d)")
    case True
    with rows r obtain r0 where r0: "r0 \<in> set (tbl_answers d)"
      and eq: "r = (if an_attempt_id r0 = a \<and> an_question_id r0 = qid
                    then r0\<lparr>an_answer_value := v\<rparr> else r0)"
      by auto
    from eq at have "an_attempt_id r0 = aid" by (simp split: if_splits)
    with inv r0 have "ungraded r0" by simp
    with eq show ?thesis by (simp add: ungraded_def split: if_splits)
  next
    case False
    with rows r have "r \<in> set (tbl_answers d) \<or>
        r = \<lparr>an_attempt_id = a, an_question_id = qid, an_answer_value = v,
             an_is_correct = None, an_points_earned = Some 0\<rparr>"
      by auto
    with inv at show ?thesis by (auto simp: ungraded_def)
  qed
qed

lemma saveAnswer_ungraded:
  assumes "\<forall>r\<in>set (tbl_answers d). an_attempt_id r = aid \<longrightarrow> ungraded r"
  shows "\<forall>r\<in>set (tbl_answers (saveAnswer merge uid c qid v d)). an_attempt_id r = aid \<longrightarrow> ungraded r"
proof (cases "truthy_str (attemptId c)")
  case False
  with assms show ?thesis by (simp add: saveAnswer_def)
next
  case True
  show ?thesis
  proof (cases "upsert_answer merge uid (the (attemptId c)) qid v d")
    case None
    with True assms show ?thesis by (simp add: saveAnswer_def)
  next
    case (Some d')
    from upsert_answer_ungraded [OF Some assms] True Some
    show ?thesis by (simp add: saveAnswer_def)
  qed
qed

text \<open>
  C9, as the code has it. A save that creates the answer row of an (attempt, question)
  pair leaves \<open>is_correct\<close> null and \<open>points_earned\<close> 0, the default of the column, not
  null. And this is an invariant of saving: if every answer row of an attempt is in that
  condition (in particular if the attempt has no answer yet), it still is after any
  sequence of answer changes, whichever way the store resolves each upsert.
\<close>

theorem saved_answers_ungraded:
  "(upsert_answer merge uid aid qid v d = Some d'
      \<and> \<not> list_ex (\<lambda>r. an_attempt_id r = aid \<and> an_question_id r = qid) (tbl_answers d)
    \<longrightarrow> tbl_answers d' = tbl_answers d @
           [\<lparr>an_attempt_id = aid, an_question_id = qid, an_answer_value = v,
             an_is_correct = None, an_points_earned = Some 0\<rparr>])
 \<and> ((\<forall>r\<in>set (tbl_answers d). an_attempt_id r = aid \<longrightarrow> ungraded r)
    \<longrightarrow> (\<forall>r\<in>set (tbl_answers (fst (answer_changes uid ops (d, c)))).
           an_attempt_id r = aid \<longrightarrow> ungraded r))"
proof (intro conjI impI)
  assume "upsert_answer merge uid aid qid v d = Some d'
      \<and> \<not> list_ex (\<lambda>r. an_attempt_id r = aid \<and> an_question_id r = qid) (tbl_answers d)"
  then show "tbl_answers d' = tbl_answers d @
           [\<lparr>an_attempt_id = aid, an_question_id = qid, an_answer_value = v,
             an_is_correct = None, an_points_earned = Some 0\<rparr>]"
    using upsert_answer_rows [of merge uid aid qid v d d'] by simp
next
  assume "\<forall>r\<in>set (tbl_answers d). an_attempt_id r = aid \<longrightarrow> ungraded r"
  then show "\<forall>r\<in>set (tbl_answers (fst (answer_changes uid ops (d, c)))).
           an_attempt_id r = aid \<longrightarrow> ungraded r"
  proof (induction ops arbitrary: d c)
    case Nil
    then show ?case by simp
  next
    case (Cons op ops)
    obtain merge' qid' v' where op: "op = (merge', qid', v')" by (cases op) auto
    let ?d = "saveAnswer merge' uid c qid' v' d"
    from Cons.prems
    have "\<forall>r\<in>set (tbl_answers ?d). an_attempt_id r = aid \<longrightarrow> ungraded r"
      by (rule saveAnswer_ungraded)
    from Cons.IH [OF this, of "c\<lparr>answers := (answers c)(qid' \<mapsto> v')\<rparr>"] op
    show ?case by (simp add: handleAnswerChange_def)
  qed
qed

theorem saved_answers_ungraded_witness:
  "upsert_answer True ''s1'' ''a1'' ''q1'' (JNum 1) sample_db_unanswered =
     Some (sample_db_unanswered\<lparr>tbl_answers :=
        [\<lparr>an_attempt_id = ''a1'', an_question_id = ''q1'', an_answer_value = JNum 1,
          an_is_correct = None, an_points_earned = Some 0\<rparr>]\<rparr>)
 \<and> tbl_answers (fst (answer_changes ''s1''
        [(True, ''q1'', JNum 1), (False, ''q1'', JNum 0), (True, ''q3'', JBool False),
         (True, ''q3'', JBool True)]
        (sample_db_unanswered, sample_client_unanswered))) =
     [\<lparr>an_attempt_id = ''a1'', an_question_id = ''q1'', an_answer_value = JNum 1,
       an_is_correct = None, an_points_earned = Some 0\<rparr>,
      \<lparr>an_attempt_id = ''a1'', an_question_id = ''q3'', an_answer_value = JBool True,
       an_is_correct = None, an_points_earned = Some 0\<rparr>]
 \<and> list_all (\<lambda>r. an_attempt_id r = ''a1'' \<and> ungraded r)
     (tbl_answers (fst (answer_changes ''s1''
        [(True, ''q1'', JNum 1), (False, ''q1'', JNum 0), (True, ''q3'', JBool False),
         (True, ''q3'', JBool True)]
        (sample_db_unanswered, sample_client_unanswered))))"
proof -
  let ?ops = "[(True, ''q1'', JNum 1), (False, ''q1'', JNum 0), (True, ''q3'', JBool False),
         (True, ''q3'', JBool True)]"
  let ?d = "fst (answer_changes ''s1'' ?ops (sample_db_unanswered, sample_client_unanswered))"
  let ?row = "\<lparr>an_attempt_id = ''a1'', an_question_id = ''q1'', an_answer_value = JNum 1,
          an_is_correct = None, an_points_earned = Some 0\<rparr>"
  have up: "upsert_answer True ''s1'' ''a1'' ''q1'' (JNum 1) sample_db_unanswered =
     Some (sample_db_unanswered\<lparr>tbl_answers := [?row]\<rparr>)"
    by (simp add: upsert_answer_def owns_attempt_def sample_defs)
  have norow: "\<not> list_ex (\<lambda>r. an_attempt_id r = ''a1'' \<and> an_question_id r = ''q1'')
                   (tbl_answers sample_db_unanswered)"
    by (simp add: sample_db_unanswered_def)
  have rows: "tbl_answers ?d =
     [?row,
      \<lparr>an_attempt_id = ''a1'', an_question_id = ''q3'', an_answer_value = JBool True,
       an_is_correct = None, an_points_earned = Some 0\<rparr>]"
    by (simp add: save_defs sample_defs)
  have start: "\<forall>r\<in>set (tbl_answers sample_db_unanswered). an_attempt_id r = ''a1'' \<longrightarrow> ungraded r"
    by (simp add: sample_db_unanswered_def)
  note inst = saved_answers_ungraded [where merge = True and uid = "''s1''" and aid = "''a1''"
      and qid = "''q1''" and v = "JNum 1" and d = sample_db_unanswered
      and d' = "sample_db_unanswered\<lparr>tbl_answers := [?row]\<rparr>" and ops = ?ops
      and c = sample_client_unanswered]
  from inst up norow
  have new: "tbl_answers (sample_db_unanswered\<lparr>tbl_answers := [?row]\<rparr>) =
             tbl_answers sample_db_unanswered @ [?row]"
    by blast
  from inst start
  have inv: "\<forall>r\<in>set (tbl_answers ?d). an_attempt_id r = ''a1'' \<longrightarrow> ungraded r"
    by blast
  have "\<forall>r\<in>set (tbl_answers ?d). an_attempt_id r = ''a1''"
    unfolding rows by simp
  with inv have "list_all (\<lambda>r. an_attempt_id r = ''a1'' \<and> ungraded r) (tbl_answers ?d)"
    by (simp add: list_all_iff)
  with up rows show ?thesis by simp
qed

text \<open>
  C9 as stated fails: in the example with nothing answered yet, the student answers the
  first question. The saved row is not graded, \<open>is_correct\<close> is null, but \<open>points_earned\<close>
  is 0, not null.
\<close>

theorem saved_answer_counterexample:
  "map (\<lambda>r. (an_attempt_id r, an_question_id r, an_is_correct r, an_points_earned r))
     (tbl_answers (fst (handleAnswerChange True ''s1'' ''q1'' (JNum 1)
                          (sample_db_unanswered, sample_client_unanswered)))) =
     [(''a1'', ''q1'', None, Some 0)]
 \<and> \<not> list_all (\<lambda>r. an_is_correct r = None \<and> an_points_earned r = None)
       (tbl_answers (fst (handleAnswerChange True ''s1'' ''q1'' (JNum 1)
                            (sample_db_unanswered, sample_client_unanswered))))"
  by (simp add: save_defs sample_defs)

end
